theory Spec2Isabelle
  imports Main "HOL-Library.AList"
begin

section \<open>The project initialisation script \<^verbatim>\<open>init.py\<close>\<close>

text \<open>
  The script talks to a console, reads and rewrites files of the working directory and
  ends the process with an exit status. Each effect is explicit here: the console is a
  list of pending input events and a log of what was written to it, the working directory
  is a listing of named nodes, and every Python exception is a value of \<open>error\<close>.
\<close>

subsection \<open>Exceptions and results\<close>

datatype error =
    KeyboardInterrupt
  | EOFError
  | FileNotFoundError
  | IsADirectoryError
  | NotADirectoryError
  | OSError
  | RecursionError
  | KeyError
  | TypeError
  | TomlDecodeError

text \<open>
  A statement that may raise runs on a state and gives back the state it reached together
  with either the exception or its value. \<open>and_then\<close> is sequencing: an exception of the
  first statement skips the second.
\<close>

definition and_then ::
  "('s \<Rightarrow> (error + 'a) \<times> 's) \<Rightarrow> ('a \<Rightarrow> 's \<Rightarrow> (error + 'b) \<times> 's) \<Rightarrow> 's \<Rightarrow> (error + 'b) \<times> 's" where
  "and_then m f s = (case m s of (Inl e, s') \<Rightarrow> (Inl e, s') | (Inr x, s') \<Rightarrow> f x s')"

definition return :: "'a \<Rightarrow> 's \<Rightarrow> (error + 'a) \<times> 's" where
  "return x s = (Inr x, s)"

subsection \<open>Strings\<close>

text \<open>
  \<^verbatim>\<open>str.lower()\<close> on the ASCII letters; every other character is left as it is. The script
  only compares the lowered answer with \<^verbatim>\<open>"y"\<close>, and the only characters that lower to
  \<^verbatim>\<open>y\<close> are \<^verbatim>\<open>y\<close> and \<^verbatim>\<open>Y\<close>.
\<close>

definition lower_char :: "char \<Rightarrow> char" where
  "lower_char c =
     (case map_of (zip ''ABCDEFGHIJKLMNOPQRSTUVWXYZ'' ''abcdefghijklmnopqrstuvwxyz'') c of
        None \<Rightarrow> c
      | Some l \<Rightarrow> l)"

definition lower :: "string \<Rightarrow> string" where
  "lower s = map lower_char s"

text \<open>Python's \<^verbatim>\<open>a or b\<close> on strings: the empty string is false.\<close>

definition str_or :: "string \<Rightarrow> string \<Rightarrow> string" where
  "str_or a b = (if a = [] then b else a)"

text \<open>
  \<^verbatim>\<open>str.replace(old, new)\<close>: the occurrences of \<open>old\<close> are found from the left and do
  not overlap; an empty \<open>old\<close> matches before every character and at the end.
\<close>

function replace :: "string \<Rightarrow> string \<Rightarrow> string \<Rightarrow> string" where
  "replace old new [] = (if old = [] then new else [])"
| "replace old new (c # cs) =
     (if old = [] then new @ c # replace old new cs
      else if take (length old) (c # cs) = old
        then new @ replace old new (drop (length old) (c # cs))
        else c # replace old new cs)"
  by pat_completeness auto
termination
  by (relation "measure (\<lambda>(old, new, s). length s)") auto

text \<open>\<^verbatim>\<open>str(n)\<close> for a natural number: decimal digits, no padding.\<close>

definition digit_char :: "nat \<Rightarrow> char" where
  "digit_char d = ''0123456789'' ! d"

function str_nat :: "nat \<Rightarrow> string" where
  "str_nat n = (if n < 10 then [digit_char n] else str_nat (n div 10) @ [digit_char (n mod 10)])"
  by pat_completeness auto
termination
  by (relation "measure id") auto

declare str_nat.simps [simp del]

subsection \<open>The console\<close>

text \<open>
  What the user does at a prompt: type a line, or press Ctrl+C. When no event is left the
  input stream is at its end and \<^verbatim>\<open>input\<close> raises \<^verbatim>\<open>EOFError\<close>.
\<close>

datatype event = Line string | Interrupt

datatype written = Prompt string | Printed string

record console =
  stdin :: "event list"
  stdout :: "written list"

definition print :: "string \<Rightarrow> console \<Rightarrow> console" where
  "print s c = c\<lparr>stdout := stdout c @ [Printed s]\<rparr>"

definition input :: "string \<Rightarrow> console \<Rightarrow> (error + string) \<times> console" where
  "input prompt c =
     (case stdin c of
        [] \<Rightarrow> (Inl EOFError, c\<lparr>stdout := stdout c @ [Prompt prompt]\<rparr>)
      | Interrupt # rest \<Rightarrow>
          (Inl KeyboardInterrupt, c\<lparr>stdin := rest, stdout := stdout c @ [Prompt prompt]\<rparr>)
      | Line s # rest \<Rightarrow> (Inr s, c\<lparr>stdin := rest, stdout := stdout c @ [Prompt prompt]\<rparr>))"

subsection \<open>\<^verbatim>\<open>query_params\<close>\<close>

definition DEFAULT_PY_VERSION :: string where
  "DEFAULT_PY_VERSION = ''>=3.10''"

text \<open>
  The loop \<^verbatim>\<open>while not (x := input(prompt) or dflt): print(complaint)\<close>. The four loops
  of \<open>query_params\<close> and the dependency name loop have no \<^verbatim>\<open>or\<close>; they are the case
  \<open>dflt = []\<close>, as the version loop of \<open>query_dependencies\<close> is with its \<^verbatim>\<open>or ""\<close>.
\<close>

function ask :: "string \<Rightarrow> string \<Rightarrow> string \<Rightarrow> console \<Rightarrow> (error + string) \<times> console" where
  "ask prompt dflt complaint c =
     (case input prompt c of
        (Inl e, c') \<Rightarrow> (Inl e, c')
      | (Inr s, c') \<Rightarrow>
          if str_or s dflt = [] then ask prompt dflt complaint (print complaint c')
          else (Inr (str_or s dflt), c'))"
  by pat_completeness auto
termination
  by (relation "measure (\<lambda>(prompt, dflt, complaint, c). length (stdin c))")
     (auto simp: input_def print_def split: list.splits event.splits)

declare ask.simps [simp del]

text \<open>Lines 28 to 42: one pass over the five questions.\<close>

definition ask_answers :: "console \<Rightarrow> (error + string \<times> string \<times> string \<times> string \<times> string) \<times> console" where
  "ask_answers =
     and_then (ask ''What is your name? '' [] ''Please enter your name, or press Ctrl+C to exit.'')
       (\<lambda>name.
     and_then (ask ''What is your email address? '' []
                 ''Please enter your email address, or press Ctrl+C to exit.'')
       (\<lambda>email.
     and_then (ask ''What should we call your project? '' []
                 ''Please enter a project name, or press Ctrl+C to exit.'')
       (\<lambda>project_name.
     and_then (ask ''What is your project about? '' []
                 ''Please enter a project description, or press Ctrl+C to exit.'')
       (\<lambda>project_description.
     and_then (input (''What version of Python do you want to use? (default: ''
                        @ DEFAULT_PY_VERSION @ '') ''))
       (\<lambda>s. return (name, email, project_name, project_description,
                     str_or s DEFAULT_PY_VERSION))))))"

text \<open>Lines 45 to 49: the echo of the answers.\<close>

definition echo_answers :: "string \<times> string \<times> string \<times> string \<times> string \<Rightarrow> console \<Rightarrow> console" where
  "echo_answers a c =
     (case a of (name, email, project_name, project_description, py_version) \<Rightarrow>
        print ('' - Python version: '' @ py_version)
          (print ('' - Project description: '' @ project_description)
            (print ('' - Project name: '' @ project_name)
              (print ('' - Author: '' @ name @ '' <'' @ email @ ''>'')
                (print ''So far, we have:'' c)))))"

function query_params ::
  "bool \<Rightarrow> console \<Rightarrow> (error + string \<times> string \<times> string \<times> string \<times> string) \<times> console" where
  "query_params validate c =
     (case ask_answers c of
        (Inl e, c1) \<Rightarrow> (Inl e, c1)
      | (Inr a, c1) \<Rightarrow>
          if validate then
            (case input ''Is this correct? (y/n) '' (echo_answers a c1) of
               (Inl e, c2) \<Rightarrow> (Inl e, c2)
             | (Inr s, c2) \<Rightarrow>
                 if lower s \<noteq> ''y''
                 then query_params validate (print ''Understood, let's try again.'' c2)
                 else (Inr a, c2))
          else (Inr a, c1))"
  by pat_completeness auto


lemma stdin_print: "stdin (print s c) = stdin c"
  by (simp add: print_def)

lemma stdin_echo_answers: "stdin (echo_answers a c) = stdin c"
  by (cases a) (simp add: echo_answers_def stdin_print)

lemma input_consumes: "input p c = (Inr s, c') \<Longrightarrow> length (stdin c') < length (stdin c)"
  by (auto simp: input_def split: list.splits event.splits)

lemma input_stdin_le: "input p c = (r, c') \<Longrightarrow> length (stdin c') \<le> length (stdin c)"
  by (auto simp: input_def split: list.splits event.splits)

lemma ask_stdin_le: "ask p d m c = (r, c') \<Longrightarrow> length (stdin c') \<le> length (stdin c)"
proof (induction p d m c arbitrary: r c' rule: ask.induct)
  case (1 prompt dflt complaint c)
  obtain r1 c1 where i: "input prompt c = (r1, c1)"
    by (cases "input prompt c")
  show ?case
  proof (cases r1)
    case (Inl e)
    with i "1.prems" show ?thesis
      by (auto simp: ask.simps [of prompt dflt complaint c] dest: input_stdin_le)
  next
    case (Inr s)
    show ?thesis
    proof (cases "str_or s dflt = []")
      case True
      with i Inr "1.prems" have "ask prompt dflt complaint (print complaint c1) = (r, c')"
        by (simp add: ask.simps [of prompt dflt complaint c])
      from "1.IH" [OF i [symmetric] Inr True this]
      have "length (stdin c') \<le> length (stdin (print complaint c1))" .
      with i show ?thesis
        by (auto simp: stdin_print dest: input_stdin_le)
    next
      case False
      with i Inr "1.prems" show ?thesis
        by (auto simp: ask.simps [of prompt dflt complaint c] dest: input_stdin_le)
    qed
  qed
qed

lemma and_then_stdin_le:
  assumes "and_then m f c = (r, c')"
    and "\<And>r1 c1. m c = (r1, c1) \<Longrightarrow> length (stdin c1) \<le> length (stdin c)"
    and "\<And>x c1 r2 c2. f x c1 = (r2, c2) \<Longrightarrow> length (stdin c2) \<le> length (stdin c1)"
  shows "length (stdin c') \<le> length (stdin c)"
proof -
  obtain r1 c1 where m: "m c = (r1, c1)"
    by (cases "m c")
  show ?thesis
  proof (cases r1)
    case (Inl e)
    with m assms(1) have "c' = c1"
      by (simp add: and_then_def)
    with assms(2) [OF m] show ?thesis by simp
  next
    case (Inr x)
    with m assms(1) have "f x c1 = (r, c')"
      by (simp add: and_then_def)
    from assms(3) [OF this] assms(2) [OF m] show ?thesis by simp
  qed
qed

lemma ask_answers_stdin_le: "ask_answers c = (r, c') \<Longrightarrow> length (stdin c') \<le> length (stdin c)"
  unfolding ask_answers_def
  apply (erule and_then_stdin_le, erule ask_stdin_le)
  apply (erule and_then_stdin_le, erule ask_stdin_le)
  apply (erule and_then_stdin_le, erule ask_stdin_le)
  apply (erule and_then_stdin_le, erule ask_stdin_le)
  apply (erule and_then_stdin_le, erule input_stdin_le)
  apply (simp add: return_def)
  done

lemma query_params_decreases:
  assumes "(Inr a, c1) = ask_answers c" and "(Inr s, c2) = input p (echo_answers a c1)"
  shows "length (stdin c2) < length (stdin c)"
proof -
  from assms(1) have "length (stdin c1) \<le> length (stdin c)"
    using ask_answers_stdin_le [of c "Inr a" c1] by simp
  moreover from assms(2) have "length (stdin c2) < length (stdin c1)"
    using input_consumes [of p "echo_answers a c1" s c2] by (simp add: stdin_echo_answers)
  ultimately show ?thesis by simp
qed

termination query_params
  by (relation "measure (\<lambda>(validate, c). length (stdin c))")
     (auto simp: stdin_print intro: query_params_decreases)

declare query_params.simps [simp del]

subsection \<open>\<^verbatim>\<open>query_dependencies\<close>\<close>

text \<open>
  The mapping \<open>deps\<close> is a Python dictionary: it keeps the order in which the names
  were first stored, and storing a name again replaces its version in place. That is
  \<open>AList.update\<close> on an association list.

  Lines 66 to 73, the body of the \<^verbatim>\<open>try\<close> up to the answer to "Add another dependency?".
\<close>

definition ask_dependency :: "console \<Rightarrow> (error + string \<times> string \<times> string) \<times> console" where
  "ask_dependency c =
     and_then (ask ''Add a dependency (e.g. requests): '' []
                 ''Please enter a dependency, or press Ctrl+C to exit.'')
       (\<lambda>dep.
     and_then (ask (''Version of '' @ dep @ '' (default: empty): '') []
                 ''Please enter a version, or press Ctrl+C to exit.'')
       (\<lambda>version.
     and_then (\<lambda>c'. input ''Add another dependency? (y/n) '' (print ''Added!'' c'))
       (\<lambda>another. return (dep, version, another))))
       (print ''Press Ctrl+C to leave empty and move on.''
         (print ''Please enter the dependencies you want to add.'' c))"

text \<open>
  The \<^verbatim>\<open>while True\<close> of lines 62 to 78, with \<open>deps\<close> the mapping at the start of
  an iteration. Each \<^verbatim>\<open>break\<close> returns the mapping as it is then; the handler of
  \<^verbatim>\<open>KeyboardInterrupt\<close> empties it first. The first \<^verbatim>\<open>input\<close> is outside the
  \<^verbatim>\<open>try\<close>, and no handler catches \<^verbatim>\<open>EOFError\<close>.
\<close>

function deps_loop ::
  "string \<Rightarrow> (string \<times> string) list \<Rightarrow> console \<Rightarrow> (error + (string \<times> string) list) \<times> console" where
  "deps_loop scope deps c =
     (case input (''Add '' @ scope @ '' dependencies? (y/n) '') c of
        (Inl e, c1) \<Rightarrow> (Inl e, c1)
      | (Inr s, c1) \<Rightarrow>
          if lower s \<noteq> ''y'' then (Inr deps, c1)
          else
            (case ask_dependency c1 of
               (Inl e, c2) \<Rightarrow> if e = KeyboardInterrupt then (Inr [], c2) else (Inl e, c2)
             | (Inr (dep, version, another), c2) \<Rightarrow>
                 if lower another \<noteq> ''y'' then (Inr deps, c2)
                 else deps_loop scope (AList.update dep version deps) c2))"
  by pat_completeness auto

lemma ask_dependency_stdin_le:
  "ask_dependency c = (r, c') \<Longrightarrow> length (stdin c') \<le> length (stdin c)"
  unfolding ask_dependency_def
  apply (drule and_then_stdin_le)
    apply (erule ask_stdin_le)
   apply (erule and_then_stdin_le, erule ask_stdin_le)
   apply (erule and_then_stdin_le)
    apply (drule input_stdin_le, simp add: stdin_print)
   apply (simp add: return_def)
  apply (simp add: stdin_print)
  done

lemma deps_loop_decreases:
  assumes "(Inr s, c1) = input p c" and "(r, c2) = ask_dependency c1"
  shows "length (stdin c2) < length (stdin c)"
proof -
  from assms(1) have "length (stdin c1) < length (stdin c)"
    using input_consumes [of p c s c1] by simp
  moreover from assms(2) have "length (stdin c2) \<le> length (stdin c1)"
    using ask_dependency_stdin_le [of c1 r c2] by simp
  ultimately show ?thesis by simp
qed

termination deps_loop
  by (relation "measure (\<lambda>(scope, deps, c). length (stdin c))")
     (auto intro: deps_loop_decreases)

declare deps_loop.simps [simp del]

definition query_dependencies ::
  "string \<Rightarrow> console \<Rightarrow> (error + (string \<times> string) list) \<times> console" where
  "query_dependencies scope =
     and_then (deps_loop scope [])
       (\<lambda>deps c. (Inr deps, print ''Understood, let's move on.'' c))"

subsection \<open>The project descriptor\<close>

text \<open>
  What \<^verbatim>\<open>toml.load\<close> returns: nested dictionaries with string keys, over strings, numbers,
  truth values and lists. A dictionary is an association list, as above.
\<close>

datatype toml =
    Str string
  | Int int
  | Bool bool
  | Arr "toml list"
  | Table "(string \<times> toml) list"

text \<open>
  \<^verbatim>\<open>data[k1]...[kn] = v\<close>: every key but the last is looked up (\<^verbatim>\<open>KeyError\<close> when it is
  missing), the last one is stored. Subscripting something that is not a dictionary
  with a string is a \<^verbatim>\<open>TypeError\<close>.
\<close>

fun setitem :: "toml \<Rightarrow> string list \<Rightarrow> toml \<Rightarrow> error + toml" where
  "setitem (Table t) [k] v = Inr (Table (AList.update k v t))"
| "setitem (Table t) (k # k' # ks) v =
     (case map_of t k of
        None \<Rightarrow> Inl KeyError
      | Some d \<Rightarrow>
          (case setitem d (k' # ks) v of
             Inl e \<Rightarrow> Inl e
           | Inr d' \<Rightarrow> Inr (Table (AList.update k d' t))))"
| "setitem d ks v = Inl TypeError"

text \<open>\<^verbatim>\<open>data[k1]...[kn]\<close> as an expression.\<close>

fun getitem :: "toml \<Rightarrow> string list \<Rightarrow> error + toml" where
  "getitem d [] = Inr d"
| "getitem (Table t) (k # ks) =
     (case map_of t k of None \<Rightarrow> Inl KeyError | Some d \<Rightarrow> getitem d ks)"
| "getitem d (k # ks) = Inl TypeError"

definition assign :: "string list \<Rightarrow> toml \<Rightarrow> toml \<Rightarrow> 's \<Rightarrow> (error + toml) \<times> 's" where
  "assign path v data s = (setitem data path v, s)"

text \<open>The list \<^verbatim>\<open>[f'"{dep} {version}"' for dep, version in dependencies.items()]\<close>.\<close>

definition format_deps :: "(string \<times> string) list \<Rightarrow> toml" where
  "format_deps dependencies =
     Arr (map (\<lambda>(dep, version). Str ([CHR 0x22] @ dep @ '' '' @ version @ [CHR 0x22]))
            dependencies)"

text \<open>
  Lines 119 to 144 of \<open>main\<close>: the questions and the assignments to the descriptor. The
  author's name and the project name are the two answers the rest of \<open>main\<close> uses.
\<close>

definition main_collect :: "toml \<Rightarrow> console \<Rightarrow> (error + toml \<times> string \<times> string) \<times> console" where
  "main_collect data c =
     and_then (query_params True)
       (\<lambda>(name, email, project_name, project_description, py_version).
     and_then (assign [''project'', ''authors'']
                 (Arr [Table [(''name'', Str name), (''email'', Str email)]]) data)
       (\<lambda>data.
     and_then (assign [''project'', ''name''] (Str project_name) data)
       (\<lambda>data.
     and_then (assign [''project'', ''description''] (Str project_description) data)
       (\<lambda>data.
     and_then (assign [''project'', ''python''] (Str py_version) data)
       (\<lambda>data.
     and_then (query_dependencies ''runtime'')
       (\<lambda>dependencies.
     and_then (assign [''project'', ''dependencies''] (format_deps dependencies) data)
       (\<lambda>data.
     and_then (query_dependencies ''development'')
       (\<lambda>dependencies.
     and_then (assign [''project'', ''optional-dependencies'', ''dev'']
                 (format_deps dependencies) data)
       (\<lambda>data.
     and_then (query_dependencies ''documentation'')
       (\<lambda>dependencies.
     and_then (assign [''project'', ''optional-dependencies'', ''doc'']
                 (format_deps dependencies) data)
       (\<lambda>data.
     and_then (query_dependencies ''testing'')
       (\<lambda>dependencies.
     and_then (assign [''project'', ''optional-dependencies'', ''test'']
                 (format_deps dependencies) data)
       (\<lambda>data. return (data, name, project_name))))))))))))))
       (print ''Please answer the following questions to help us get you set up.''
         (print ''Hi! Let's get started.'' c))"

subsection \<open>The working directory\<close>

text \<open>
  An entry of a directory is a regular file with its text, a directory with its own
  entries, or something that is neither (a socket, a dangling link). The working
  directory is the list of its entries, in the order \<^verbatim>\<open>os.listdir(".")\<close> gives them; the
  names of a directory are distinct.
\<close>

datatype node = File string | Dir "(string \<times> node) list" | Other

text \<open>
  The state of a run: the working directory, the console, and the texts written to files
  so far, oldest first.
\<close>

record world =
  cwd :: "(string \<times> node) list"
  console :: console
  written :: "(string \<times> string) list"

definition listdir :: "world \<Rightarrow> string list" where
  "listdir w = map fst (cwd w)"

definition isdir :: "string \<Rightarrow> world \<Rightarrow> bool" where
  "isdir path w = (case map_of (cwd w) path of Some (Dir entries) \<Rightarrow> True | _ \<Rightarrow> False)"

definition isfile :: "string \<Rightarrow> world \<Rightarrow> bool" where
  "isfile path w = (case map_of (cwd w) path of Some (File text) \<Rightarrow> True | _ \<Rightarrow> False)"

text \<open>\<^verbatim>\<open>open(path).read()\<close> and \<^verbatim>\<open>open(path, "w").write(text)\<close>, for a name of the working directory.\<close>

definition read_file :: "string \<Rightarrow> world \<Rightarrow> (error + string) \<times> world" where
  "read_file path w =
     (case map_of (cwd w) path of
        None \<Rightarrow> (Inl FileNotFoundError, w)
      | Some (File text) \<Rightarrow> (Inr text, w)
      | Some (Dir entries) \<Rightarrow> (Inl IsADirectoryError, w)
      | Some Other \<Rightarrow> (Inl OSError, w))"

definition write_file :: "string \<Rightarrow> string \<Rightarrow> world \<Rightarrow> (error + unit) \<times> world" where
  "write_file path text w =
     (case map_of (cwd w) path of
        Some (Dir entries) \<Rightarrow> (Inl IsADirectoryError, w)
      | Some Other \<Rightarrow> (Inl OSError, w)
      | _ \<Rightarrow>
          (Inr (), w\<lparr>cwd := AList.update path (File text) (cwd w),
                      written := written w @ [(path, text)]\<rparr>))"

definition on_console :: "(console \<Rightarrow> (error + 'a) \<times> console) \<Rightarrow> world \<Rightarrow> (error + 'a) \<times> world" where
  "on_console m w = (case m (console w) of (r, c) \<Rightarrow> (r, w\<lparr>console := c\<rparr>))"

definition say :: "string \<Rightarrow> world \<Rightarrow> (error + unit) \<times> world" where
  "say s w = (Inr (), w\<lparr>console := print s (console w)\<rparr>)"

subsection \<open>\<^verbatim>\<open>rename_project\<close>\<close>

text \<open>
  The first argument is the number of calls the interpreter's stack still has room for:
  a call with none left raises \<^verbatim>\<open>RecursionError\<close>. \<open>rename_entries\<close> is the \<^verbatim>\<open>for\<close>
  loop over the listing taken when the call began. The recursive call passes the
  entry's name as the new \<open>project_name\<close>, and nothing changes the working directory,
  so the callee lists the same directory again.
\<close>

fun rename_project :: "nat \<Rightarrow> string \<Rightarrow> world \<Rightarrow> (error + unit) \<times> world"
  and rename_entries :: "nat \<Rightarrow> string \<Rightarrow> string list \<Rightarrow> world \<Rightarrow> (error + unit) \<times> world" where
  "rename_project 0 project_name w = (Inl RecursionError, w)"
| "rename_project (Suc depth) project_name w = rename_entries depth project_name (listdir w) w"
| "rename_entries depth project_name [] w = (Inr (), w)"
| "rename_entries depth project_name (path # paths) w =
     (if isdir path w then
        (case rename_project depth path w of
           (Inl e, w') \<Rightarrow> (Inl e, w')
         | (Inr u, w') \<Rightarrow> rename_entries depth project_name paths w')
      else if isfile path w then
        (case read_file path w of
           (Inl e, w') \<Rightarrow> (Inl e, w')
         | (Inr data, w') \<Rightarrow>
             (case write_file path (replace ''project_name'' project_name data) w' of
                (Inl e, w'') \<Rightarrow> (Inl e, w'')
              | (Inr u, w'') \<Rightarrow> rename_entries depth project_name paths w''))
      else rename_entries depth project_name paths w)"

subsection \<open>\<^verbatim>\<open>update_license\<close>\<close>

text \<open>The first argument is \<^verbatim>\<open>datetime.now().year\<close>.\<close>

definition update_license :: "nat \<Rightarrow> string \<Rightarrow> world \<Rightarrow> (error + unit) \<times> world" where
  "update_license year name =
     and_then (read_file ''LICENSE'')
       (\<lambda>data. write_file ''LICENSE''
                 (replace ''<name>'' name (replace ''<year>'' (str_nat year) data)))"

text \<open>
  The contract of the license step, in the words of the specification: reading the text
  from the left, every occurrence of \<^verbatim>\<open><year>\<close> becomes the year, every occurrence of
  \<^verbatim>\<open><name>\<close> becomes the author's name, and every other character stays. The text put
  in for a placeholder is not read again.
\<close>

function license_spec :: "string \<Rightarrow> string \<Rightarrow> string \<Rightarrow> string" where
  "license_spec y n [] = []"
| "license_spec y n (c # cs) =
     (if take 6 (c # cs) = ''<year>'' then y @ license_spec y n (drop 6 (c # cs))
      else if take 6 (c # cs) = ''<name>'' then n @ license_spec y n (drop 6 (c # cs))
      else c # license_spec y n cs)"
  by pat_completeness auto
termination
  by (relation "measure (\<lambda>(y, n, s). length s)") auto

subsection \<open>\<^verbatim>\<open>main\<close>\<close>

text \<open>
  What the script takes from outside the repository: the TOML library, the rename of
  the operating system (on the working directory, from one relative path to another),
  the clock, the room on the interpreter's stack and the path of the script itself.
\<close>

record env =
  toml_load :: "string \<Rightarrow> error + toml"
  toml_dumps :: "toml \<Rightarrow> string"
  os_rename :: "string \<Rightarrow> string \<Rightarrow> (string \<times> node) list \<Rightarrow> error + (string \<times> node) list"
  year :: nat
  recursion_limit :: nat
  script_file :: string

definition rename_path :: "env \<Rightarrow> string \<Rightarrow> string \<Rightarrow> world \<Rightarrow> (error + unit) \<times> world" where
  "rename_path env src dst w =
     (case os_rename env src dst (cwd w) of
        Inl e \<Rightarrow> (Inl e, w)
      | Inr entries \<Rightarrow> (Inr (), w\<lparr>cwd := entries\<rparr>))"

text \<open>Lines 146 to 161; the value is \<open>data\<close> as it is when \<open>main\<close> ends.\<close>

definition main_finish :: "env \<Rightarrow> string \<Rightarrow> string \<Rightarrow> toml \<Rightarrow> world \<Rightarrow> (error + toml) \<times> world" where
  "main_finish env name project_name data =
     and_then (say ''Updating license...'')
       (\<lambda>u.
     and_then (update_license (year env) name)
       (\<lambda>u.
     and_then (say ''Generating pyproject.toml...'')
       (\<lambda>u.
     and_then (write_file ''pyproject.toml'' (toml_dumps env data))
       (\<lambda>u.
     and_then (say ''Renaming project...'')
       (\<lambda>u.
     and_then (rename_project (recursion_limit env) project_name)
       (\<lambda>u.
     and_then (rename_path env ''src/project_name'' (''src/'' @ project_name))
       (\<lambda>u.
     and_then (assign [''tool'', ''setuptools'', ''dynamic'']
                 (Str (project_name @ ''.__version__'')) data)
       (\<lambda>data.
     and_then (say ''Your project is ready! Deleting myself from existence, farewell!'')
       (\<lambda>u.
     and_then (say (script_file env))
       (\<lambda>u. return data))))))))))"

text \<open>How the process ends: \<open>main\<close> returns, \<^verbatim>\<open>exit(n)\<close> is called, or an exception is not caught.\<close>

datatype outcome = Completed | Exit nat | Uncaught error

definition main :: "env \<Rightarrow> world \<Rightarrow> outcome \<times> world" where
  "main env w =
     (case and_then (read_file ''pyproject.toml'') (\<lambda>text w'. (toml_load env text, w')) w of
        (Inl e, w1) \<Rightarrow>
          if e = FileNotFoundError
          then (Exit 1, snd (say ''No pyproject.toml found, exiting.'' w1))
          else (Uncaught e, w1)
      | (Inr data, w1) \<Rightarrow>
          (case and_then (on_console (main_collect data))
                  (\<lambda>(data, name, project_name). main_finish env name project_name data) w1 of
             (Inl e, w2) \<Rightarrow>
               if e = KeyboardInterrupt
               then (Exit 0, snd (say (CHR 0x0A # ''Exiting.'') w2))
               else (Uncaught e, w2)
           | (Inr data, w2) \<Rightarrow> (Completed, w2)))"

section \<open>Properties\<close>

subsection \<open>Stepping the console\<close>

lemma input_Line:
  "input p \<lparr>stdin = Line s # r, stdout = out\<rparr> = (Inr s, \<lparr>stdin = r, stdout = out @ [Prompt p]\<rparr>)"
  by (simp add: input_def)

lemma input_Interrupt:
  "input p \<lparr>stdin = Interrupt # r, stdout = out\<rparr>
     = (Inl KeyboardInterrupt, \<lparr>stdin = r, stdout = out @ [Prompt p]\<rparr>)"
  by (simp add: input_def)

lemma input_Nil:
  "input p \<lparr>stdin = [], stdout = out\<rparr> = (Inl EOFError, \<lparr>stdin = [], stdout = out @ [Prompt p]\<rparr>)"
  by (simp add: input_def)

lemma print_console:
  "print s \<lparr>stdin = r, stdout = out\<rparr> = \<lparr>stdin = r, stdout = out @ [Printed s]\<rparr>"
  by (simp add: print_def)

lemma ask_Line:
  "s \<noteq> [] \<Longrightarrow> ask p [] m \<lparr>stdin = Line s # r, stdout = out\<rparr>
     = (Inr s, \<lparr>stdin = r, stdout = out @ [Prompt p]\<rparr>)"
  by (simp add: ask.simps [of p "[]" m] input_Line str_or_def)

lemma ask_empty_Line:
  "ask p [] m \<lparr>stdin = Line [] # r, stdout = out\<rparr>
     = ask p [] m \<lparr>stdin = r, stdout = out @ [Prompt p, Printed m]\<rparr>"
  by (simp add: ask.simps [of p "[]" m "\<lparr>stdin = Line [] # r, stdout = out\<rparr>"]
        input_Line str_or_def print_console)

lemma ask_Interrupt:
  "ask p d m \<lparr>stdin = Interrupt # r, stdout = out\<rparr>
     = (Inl KeyboardInterrupt, \<lparr>stdin = r, stdout = out @ [Prompt p]\<rparr>)"
  by (simp add: ask.simps [of p d m] input_Interrupt)

lemma ask_Nil:
  "ask p d m \<lparr>stdin = [], stdout = out\<rparr> = (Inl EOFError, \<lparr>stdin = [], stdout = out @ [Prompt p]\<rparr>)"
  by (simp add: ask.simps [of p d m] input_Nil)

lemma ask_empty_Lines:
  "ask p [] m \<lparr>stdin = replicate k (Line []) @ r, stdout = out\<rparr>
     = ask p [] m \<lparr>stdin = r, stdout = out @ concat (replicate k [Prompt p, Printed m])\<rparr>"
  by (induction k arbitrary: out) (simp_all add: ask_empty_Line)

lemma ask_retry:
  "s \<noteq> [] \<Longrightarrow> ask p [] m \<lparr>stdin = replicate k (Line []) @ Line s # r, stdout = out\<rparr>
     = (Inr s, \<lparr>stdin = r, stdout = out @ concat (replicate k [Prompt p, Printed m]) @ [Prompt p]\<rparr>)"
  by (simp add: ask_empty_Lines ask_Line)

lemma lower_char_y: "lower_char c = CHR ''y'' \<longleftrightarrow> c = CHR ''y'' \<or> c = CHR ''Y''"
  by (auto simp: lower_char_def split: if_splits)

lemma lower_eq_y: "lower s = ''y'' \<longleftrightarrow> s = ''y'' \<or> s = ''Y''"
  by (cases s) (auto simp: lower_def lower_char_y)

lemma and_then_Inr: "m s = (Inr x, s') \<Longrightarrow> and_then m f s = f x s'"
  by (simp add: and_then_def)

lemma and_then_Inl: "m s = (Inl e, s') \<Longrightarrow> and_then m f s = (Inl e, s')"
  by (simp add: and_then_def)

subsection \<open>The answers depend on the input alone\<close>

lemma input_stdin_only:
  "stdin c = stdin c' \<Longrightarrow>
     fst (input p c) = fst (input p c') \<and> stdin (snd (input p c)) = stdin (snd (input p c'))"
  by (simp add: input_def split: list.splits event.splits)

lemma ask_stdin_only:
  "stdin c = stdin c' \<Longrightarrow>
     fst (ask p d m c) = fst (ask p d m c') \<and> stdin (snd (ask p d m c)) = stdin (snd (ask p d m c'))"
proof (induction p d m c arbitrary: c' rule: ask.induct)
  case (1 prompt dflt complaint c)
  obtain r c1 where i: "input prompt c = (r, c1)" by (cases "input prompt c")
  obtain r' c1' where i': "input prompt c' = (r', c1')" by (cases "input prompt c'")
  from input_stdin_only [OF "1.prems", of prompt] i i'
  have same: "r' = r" "stdin c1 = stdin c1'" by simp_all
  show ?case
  proof (cases r)
    case (Inl e)
    with i i' same show ?thesis
      by (simp add: ask.simps [of prompt dflt complaint c] ask.simps [of prompt dflt complaint c'])
  next
    case (Inr s)
    show ?thesis
    proof (cases "str_or s dflt = []")
      case True
      have "stdin (print complaint c1) = stdin (print complaint c1')"
        using same by (simp add: stdin_print)
      from "1.IH" [OF i [symmetric] Inr True this] i i' same Inr True show ?thesis
        by (simp add: ask.simps [of prompt dflt complaint c] ask.simps [of prompt dflt complaint c'])
    next
      case False
      with i i' same Inr show ?thesis
        by (simp add: ask.simps [of prompt dflt complaint c] ask.simps [of prompt dflt complaint c'])
    qed
  qed
qed

lemma and_then_stdin_only:
  assumes "stdin c = stdin c'"
    and "\<And>c c'. stdin c = stdin c' \<Longrightarrow>
           fst (m c) = fst (m c') \<and> stdin (snd (m c)) = stdin (snd (m c'))"
    and "\<And>x c c'. stdin c = stdin c' \<Longrightarrow>
           fst (f x c) = fst (f x c') \<and> stdin (snd (f x c)) = stdin (snd (f x c'))"
  shows "fst (and_then m f c) = fst (and_then m f c')
         \<and> stdin (snd (and_then m f c)) = stdin (snd (and_then m f c'))"
proof -
  obtain r c1 where m: "m c = (r, c1)" by (cases "m c")
  obtain r' c1' where m': "m c' = (r', c1')" by (cases "m c'")
  from assms(2) [OF assms(1)] m m' have same: "r' = r" "stdin c1 = stdin c1'" by simp_all
  show ?thesis
  proof (cases r)
    case (Inl e)
    with m m' same show ?thesis by (simp add: and_then_def)
  next
    case (Inr x)
    with m m' same assms(3) [OF same(2), of x] show ?thesis by (simp add: and_then_def)
  qed
qed

lemma ask_answers_stdin_only:
  assumes "stdin c = stdin c'"
  shows "fst (ask_answers c) = fst (ask_answers c')
         \<and> stdin (snd (ask_answers c)) = stdin (snd (ask_answers c'))"
  unfolding ask_answers_def using assms
  apply (rule and_then_stdin_only)
  apply (erule ask_stdin_only)
  apply (erule and_then_stdin_only, erule ask_stdin_only)
  apply (erule and_then_stdin_only, erule ask_stdin_only)
  apply (erule and_then_stdin_only, erule ask_stdin_only)
  apply (erule and_then_stdin_only, erule input_stdin_only)
  apply (simp add: return_def)
  done

lemma query_params_stdin_only:
  "stdin c = stdin c' \<Longrightarrow>
     fst (query_params v c) = fst (query_params v c')
     \<and> stdin (snd (query_params v c)) = stdin (snd (query_params v c'))"
proof (induction v c arbitrary: c' rule: query_params.induct)
  case (1 validate c)
  obtain r c1 where a: "ask_answers c = (r, c1)" by (cases "ask_answers c")
  obtain r' c1' where a': "ask_answers c' = (r', c1')" by (cases "ask_answers c'")
  from ask_answers_stdin_only [OF "1.prems"] a a'
  have same: "r' = r" "stdin c1 = stdin c1'" by simp_all
  show ?case
  proof (cases r)
    case (Inl e)
    with a a' same show ?thesis
      by (simp add: query_params.simps [of _ c] query_params.simps [of _ c'])
  next
    case (Inr ans)
    show ?thesis
    proof (cases validate)
      case False
      with a a' same Inr show ?thesis
        by (simp add: query_params.simps [of _ c] query_params.simps [of _ c'])
    next
      case True
      let ?q = "''Is this correct? (y/n) ''"
      obtain s c2 where i: "input ?q (echo_answers ans c1) = (s, c2)"
        by (cases "input ?q (echo_answers ans c1)")
      obtain s' c2' where i': "input ?q (echo_answers ans c1') = (s', c2')"
        by (cases "input ?q (echo_answers ans c1')")
      have "stdin (echo_answers ans c1) = stdin (echo_answers ans c1')"
        using same by (simp add: stdin_echo_answers)
      from input_stdin_only [OF this, of ?q] i i'
      have same2: "s' = s" "stdin c2 = stdin c2'" by simp_all
      show ?thesis
      proof (cases s)
        case (Inl e)
        with a a' same Inr True i i' same2 show ?thesis
          by (simp add: query_params.simps [of _ c] query_params.simps [of _ c'])
      next
        case answer: (Inr t)
        show ?thesis
        proof (cases "lower t \<noteq> ''y''")
          case False
          with a a' same Inr True i i' same2 answer show ?thesis
            by (simp add: query_params.simps [of _ c] query_params.simps [of _ c'])
        next
          case reject: True
          have "stdin (print ''Understood, let's try again.'' c2)
                = stdin (print ''Understood, let's try again.'' c2')"
            using same2 by (simp add: stdin_print)
          from "1.IH" [OF a [symmetric] Inr True i [symmetric] answer reject this]
            a a' same Inr True i i' same2 answer reject
          show ?thesis
            by (simp add: query_params.simps [of _ c] query_params.simps [of _ c'])
        qed
      qed
    qed
  qed
qed

subsection \<open>The metadata questions\<close>

lemma ask_answers_retry:
  assumes "name \<noteq> []" "email \<noteq> []" "project_name \<noteq> []" "description \<noteq> []"
  shows "ask_answers
      \<lparr>stdin = replicate k1 (Line []) @ Line name # replicate k2 (Line []) @ Line email #
               replicate k3 (Line []) @ Line project_name #
               replicate k4 (Line []) @ Line description # Line version # rest,
       stdout = out\<rparr>
    = (Inr (name, email, project_name, description, str_or version ''>=3.10''),
       \<lparr>stdin = rest,
        stdout = out
          @ concat (replicate k1 [Prompt ''What is your name? '',
                                  Printed ''Please enter your name, or press Ctrl+C to exit.''])
          @ [Prompt ''What is your name? '']
          @ concat (replicate k2 [Prompt ''What is your email address? '',
                                  Printed ''Please enter your email address, or press Ctrl+C to exit.''])
          @ [Prompt ''What is your email address? '']
          @ concat (replicate k3 [Prompt ''What should we call your project? '',
                                  Printed ''Please enter a project name, or press Ctrl+C to exit.''])
          @ [Prompt ''What should we call your project? '']
          @ concat (replicate k4 [Prompt ''What is your project about? '',
                                  Printed ''Please enter a project description, or press Ctrl+C to exit.''])
          @ [Prompt ''What is your project about? '',
             Prompt ''What version of Python do you want to use? (default: >=3.10) '']\<rparr>)"
  using assms
  by (simp add: ask_answers_def and_then_def ask_retry input_Line return_def DEFAULT_PY_VERSION_def)

lemma ask_answers_Lines:
  assumes "name \<noteq> []" "email \<noteq> []" "project_name \<noteq> []" "description \<noteq> []"
  shows "ask_answers
      \<lparr>stdin = Line name # Line email # Line project_name # Line description # Line version # rest,
       stdout = out\<rparr>
    = (Inr (name, email, project_name, description, str_or version ''>=3.10''),
       \<lparr>stdin = rest,
        stdout = out
          @ [Prompt ''What is your name? '',
             Prompt ''What is your email address? '',
             Prompt ''What should we call your project? '',
             Prompt ''What is your project about? '',
             Prompt ''What version of Python do you want to use? (default: >=3.10) '']\<rparr>)"
  using ask_answers_retry [OF assms, of 0 0 0 0 version rest out] by simp

lemma query_params_unvalidated: "query_params False c = ask_answers c"
  by (cases "ask_answers c") (auto simp: query_params.simps [of False c] split: sum.splits)

lemma echo_console:
  "echo_answers (name, email, project_name, description, version) \<lparr>stdin = r, stdout = out\<rparr>
   = \<lparr>stdin = r,
      stdout = out @ [Printed ''So far, we have:'',
                      Printed ('' - Author: '' @ name @ '' <'' @ email @ ''>''),
                      Printed ('' - Project name: '' @ project_name),
                      Printed ('' - Project description: '' @ description),
                      Printed ('' - Python version: '' @ version)]\<rparr>"
  by (simp add: echo_answers_def print_console)

lemma query_params_validated:
  assumes "ask_answers c = (Inr a, \<lparr>stdin = Line answer # rest, stdout = out\<rparr>)"
  shows "query_params True c =
    (if lower answer = ''y''
     then (Inr a, \<lparr>stdin = rest,
                   stdout = stdout (echo_answers a \<lparr>stdin = rest, stdout = out\<rparr>)
                            @ [Prompt ''Is this correct? (y/n) '']\<rparr>)
     else query_params True
            \<lparr>stdin = rest,
             stdout = stdout (echo_answers a \<lparr>stdin = rest, stdout = out\<rparr>)
                      @ [Prompt ''Is this correct? (y/n) '',
                         Printed ''Understood, let's try again.'']\<rparr>)"
  using assms
  by (cases a) (simp add: query_params.simps [of True c] echo_console input_Line print_console)

text \<open>
  Claim C7. At each of the four required questions of \<open>query_params\<close> every empty line
  is answered by the complaint and the same question again, and the first line that is
  not empty is the value. The question for the Python version is asked once: an empty
  line there gives \<^verbatim>\<open>>=3.10\<close>, any other line is the value. This is what the call
  returns without validation, and with validation once the echo is confirmed.
\<close>

theorem query_params_required_fields:
  assumes "name \<noteq> []" and "email \<noteq> []" and "project_name \<noteq> []" and "description \<noteq> []"
  shows "query_params False
      \<lparr>stdin = replicate k1 (Line []) @ Line name # replicate k2 (Line []) @ Line email #
               replicate k3 (Line []) @ Line project_name #
               replicate k4 (Line []) @ Line description # Line version # rest,
       stdout = out\<rparr>
    = (Inr (name, email, project_name, description, if version = [] then ''>=3.10'' else version),
       \<lparr>stdin = rest,
        stdout = out
          @ concat (replicate k1 [Prompt ''What is your name? '',
                                  Printed ''Please enter your name, or press Ctrl+C to exit.''])
          @ [Prompt ''What is your name? '']
          @ concat (replicate k2 [Prompt ''What is your email address? '',
                                  Printed ''Please enter your email address, or press Ctrl+C to exit.''])
          @ [Prompt ''What is your email address? '']
          @ concat (replicate k3 [Prompt ''What should we call your project? '',
                                  Printed ''Please enter a project name, or press Ctrl+C to exit.''])
          @ [Prompt ''What should we call your project? '']
          @ concat (replicate k4 [Prompt ''What is your project about? '',
                                  Printed ''Please enter a project description, or press Ctrl+C to exit.''])
          @ [Prompt ''What is your project about? '',
             Prompt ''What version of Python do you want to use? (default: >=3.10) '']\<rparr>)
    \<and> fst (query_params True
      \<lparr>stdin = replicate k1 (Line []) @ Line name # replicate k2 (Line []) @ Line email #
               replicate k3 (Line []) @ Line project_name #
               replicate k4 (Line []) @ Line description # Line version # Line ''y'' # rest,
       stdout = out\<rparr>)
      = Inr (name, email, project_name, description, if version = [] then ''>=3.10'' else version)
    \<and> stdin (snd (query_params True
      \<lparr>stdin = replicate k1 (Line []) @ Line name # replicate k2 (Line []) @ Line email #
               replicate k3 (Line []) @ Line project_name #
               replicate k4 (Line []) @ Line description # Line version # Line ''y'' # rest,
       stdout = out\<rparr>))
      = rest"
proof -
  have unvalidated: "query_params False
      \<lparr>stdin = replicate k1 (Line []) @ Line name # replicate k2 (Line []) @ Line email #
               replicate k3 (Line []) @ Line project_name #
               replicate k4 (Line []) @ Line description # Line version # rest,
       stdout = out\<rparr>
    = (Inr (name, email, project_name, description, if version = [] then ''>=3.10'' else version),
       \<lparr>stdin = rest,
        stdout = out
          @ concat (replicate k1 [Prompt ''What is your name? '',
                                  Printed ''Please enter your name, or press Ctrl+C to exit.''])
          @ [Prompt ''What is your name? '']
          @ concat (replicate k2 [Prompt ''What is your email address? '',
                                  Printed ''Please enter your email address, or press Ctrl+C to exit.''])
          @ [Prompt ''What is your email address? '']
          @ concat (replicate k3 [Prompt ''What should we call your project? '',
                                  Printed ''Please enter a project name, or press Ctrl+C to exit.''])
          @ [Prompt ''What should we call your project? '']
          @ concat (replicate k4 [Prompt ''What is your project about? '',
                                  Printed ''Please enter a project description, or press Ctrl+C to exit.''])
          @ [Prompt ''What is your project about? '',
             Prompt ''What version of Python do you want to use? (default: >=3.10) '']\<rparr>)"
    using ask_answers_retry [OF assms, of k1 k2 k3 k4 version rest out]
    by (simp add: query_params_unvalidated str_or_def)
  have yes: "lower ''y'' = ''y''"
    by (simp add: lower_eq_y)
  from query_params_validated
    [OF ask_answers_retry [OF assms, of k1 k2 k3 k4 version "Line ''y'' # rest" out]] yes
  have "fst (query_params True
      \<lparr>stdin = replicate k1 (Line []) @ Line name # replicate k2 (Line []) @ Line email #
               replicate k3 (Line []) @ Line project_name #
               replicate k4 (Line []) @ Line description # Line version # Line ''y'' # rest,
       stdout = out\<rparr>)
      = Inr (name, email, project_name, description, if version = [] then ''>=3.10'' else version)"
    and "stdin (snd (query_params True
      \<lparr>stdin = replicate k1 (Line []) @ Line name # replicate k2 (Line []) @ Line email #
               replicate k3 (Line []) @ Line project_name #
               replicate k4 (Line []) @ Line description # Line version # Line ''y'' # rest,
       stdout = out\<rparr>))
      = rest"
    by (simp_all add: str_or_def)
  with unvalidated show ?thesis
    by (intro conjI)
qed

theorem query_params_required_fields_witness:
  "query_params False
      \<lparr>stdin = [Line [], Line [], Line ''Ada'', Line ''a@x.com'', Line [], Line ''acme'',
                Line ''demo'', Line [], Line ''left''],
       stdout = []\<rparr>
    = (Inr (''Ada'', ''a@x.com'', ''acme'', ''demo'', ''>=3.10''),
       \<lparr>stdin = [Line ''left''],
        stdout =
          [Prompt ''What is your name? '',
           Printed ''Please enter your name, or press Ctrl+C to exit.'',
           Prompt ''What is your name? '',
           Printed ''Please enter your name, or press Ctrl+C to exit.'',
           Prompt ''What is your name? '',
           Prompt ''What is your email address? '',
           Prompt ''What should we call your project? '',
           Printed ''Please enter a project name, or press Ctrl+C to exit.'',
           Prompt ''What should we call your project? '',
           Prompt ''What is your project about? '',
           Prompt ''What version of Python do you want to use? (default: >=3.10) '']\<rparr>)
   \<and> fst (query_params True
      \<lparr>stdin = [Line [], Line [], Line ''Ada'', Line ''a@x.com'', Line [], Line ''acme'',
                Line ''demo'', Line [], Line ''y'', Line ''left''],
       stdout = []\<rparr>)
     = Inr (''Ada'', ''a@x.com'', ''acme'', ''demo'', ''>=3.10'')"
  using query_params_required_fields
    [of "''Ada''" "''a@x.com''" "''acme''" "''demo''" 2 0 1 0 "[]" "[Line ''left'']" "[]"]
  by (simp add: numeral_2_eq_2)

text \<open>
  Claim C4. With validation on, \<open>query_params\<close> echoes the five answers and asks for
  confirmation. The answer \<^verbatim>\<open>y\<close> (in either case) returns the five values. Any other
  answer starts again from the first question: the call continues as a call of
  \<open>query_params\<close> on the rest of the input, and what it returns and what input it
  leaves are those of a fresh call on that input, so nothing of the rejected answers is
  kept.
\<close>

theorem query_params_confirmation:
  assumes "name \<noteq> []" and "email \<noteq> []" and "project_name \<noteq> []" and "description \<noteq> []"
  shows "(lower answer = ''y'' \<longrightarrow>
           query_params True
             \<lparr>stdin = Line name # Line email # Line project_name # Line description #
                      Line version # Line answer # rest,
              stdout = out\<rparr>
           = (Inr (name, email, project_name, description, str_or version ''>=3.10''),
              \<lparr>stdin = rest,
               stdout = out @
                 [Prompt ''What is your name? '',
                  Prompt ''What is your email address? '',
                  Prompt ''What should we call your project? '',
                  Prompt ''What is your project about? '',
                  Prompt ''What version of Python do you want to use? (default: >=3.10) '',
                  Printed ''So far, we have:'',
                  Printed ('' - Author: '' @ name @ '' <'' @ email @ ''>''),
                  Printed ('' - Project name: '' @ project_name),
                  Printed ('' - Project description: '' @ description),
                  Printed ('' - Python version: '' @ str_or version ''>=3.10''),
                  Prompt ''Is this correct? (y/n) '']\<rparr>))
       \<and> (lower answer \<noteq> ''y'' \<longrightarrow>
           query_params True
             \<lparr>stdin = Line name # Line email # Line project_name # Line description #
                      Line version # Line answer # rest,
              stdout = out\<rparr>
           = query_params True
              \<lparr>stdin = rest,
               stdout = out @
                 [Prompt ''What is your name? '',
                  Prompt ''What is your email address? '',
                  Prompt ''What should we call your project? '',
                  Prompt ''What is your project about? '',
                  Prompt ''What version of Python do you want to use? (default: >=3.10) '',
                  Printed ''So far, we have:'',
                  Printed ('' - Author: '' @ name @ '' <'' @ email @ ''>''),
                  Printed ('' - Project name: '' @ project_name),
                  Printed ('' - Project description: '' @ description),
                  Printed ('' - Python version: '' @ str_or version ''>=3.10''),
                  Prompt ''Is this correct? (y/n) '',
                  Printed ''Understood, let's try again.'']\<rparr>
           \<and> fst (query_params True
                  \<lparr>stdin = Line name # Line email # Line project_name # Line description #
                           Line version # Line answer # rest,
                   stdout = out\<rparr>)
             = fst (query_params True \<lparr>stdin = rest, stdout = []\<rparr>)
           \<and> stdin (snd (query_params True
                  \<lparr>stdin = Line name # Line email # Line project_name # Line description #
                           Line version # Line answer # rest,
                   stdout = out\<rparr>))
             = stdin (snd (query_params True \<lparr>stdin = rest, stdout = []\<rparr>)))"
proof -
  let ?c = "\<lparr>stdin = Line name # Line email # Line project_name # Line description #
                      Line version # Line answer # rest,
              stdout = out\<rparr>"
  note step = query_params_validated [OF ask_answers_Lines [OF assms, of version "Line answer # rest" out]]
  have accept: "lower answer = ''y'' \<Longrightarrow> ?thesis"
    using step by (simp add: echo_console)
  have reject: "lower answer \<noteq> ''y'' \<Longrightarrow> ?thesis"
  proof -
    assume no: "lower answer \<noteq> ''y''"
    let ?c' = "\<lparr>stdin = rest,
               stdout = out @
                 [Prompt ''What is your name? '',
                  Prompt ''What is your email address? '',
                  Prompt ''What should we call your project? '',
                  Prompt ''What is your project about? '',
                  Prompt ''What version of Python do you want to use? (default: >=3.10) '',
                  Printed ''So far, we have:'',
                  Printed ('' - Author: '' @ name @ '' <'' @ email @ ''>''),
                  Printed ('' - Project name: '' @ project_name),
                  Printed ('' - Project description: '' @ description),
                  Printed ('' - Python version: '' @ str_or version ''>=3.10''),
                  Prompt ''Is this correct? (y/n) '',
                  Printed ''Understood, let's try again.'']\<rparr>"
    have eq: "query_params True ?c = query_params True ?c'"
      using step no by (simp add: echo_console)
    have "stdin ?c' = stdin \<lparr>stdin = rest, stdout = []\<rparr>" by simp
    from query_params_stdin_only [OF this, of True] eq no show ?thesis
      by simp
  qed
  from accept reject show ?thesis by blast
qed

theorem query_params_confirmation_witness:
  "lower ''n'' \<noteq> ''y'' \<and> lower ''y'' = ''y''
   \<and> fst (query_params True
      \<lparr>stdin = [Line ''Ada'', Line ''a@x.com'', Line ''acme'', Line ''demo'', Line [], Line ''n'',
                Line ''Bob'', Line ''b@y.org'', Line ''zeta'', Line ''tool'', Line ''>=3.12'', Line ''y''],
       stdout = []\<rparr>)
    = Inr (''Bob'', ''b@y.org'', ''zeta'', ''tool'', ''>=3.12'')"
proof -
  have no: "lower ''n'' \<noteq> ''y''" and yes: "lower ''y'' = ''y''"
    by (simp_all add: lower_eq_y)
  have "fst (query_params True
      \<lparr>stdin = [Line ''Ada'', Line ''a@x.com'', Line ''acme'', Line ''demo'', Line [], Line ''n'',
                Line ''Bob'', Line ''b@y.org'', Line ''zeta'', Line ''tool'', Line ''>=3.12'', Line ''y''],
       stdout = []\<rparr>)
    = fst (query_params True
      \<lparr>stdin = [Line ''Bob'', Line ''b@y.org'', Line ''zeta'', Line ''tool'', Line ''>=3.12'', Line ''y''],
       stdout = []\<rparr>)"
    using no query_params_confirmation
      [of "''Ada''" "''a@x.com''" "''acme''" "''demo''" "''n''" "[]"
        "[Line ''Bob'', Line ''b@y.org'', Line ''zeta'', Line ''tool'', Line ''>=3.12'', Line ''y'']" "[]"]
    by blast
  also have "\<dots> = Inr (''Bob'', ''b@y.org'', ''zeta'', ''tool'', ''>=3.12'')"
    using yes query_params_confirmation
      [of "''Bob''" "''b@y.org''" "''zeta''" "''tool''" "''y''" "''>=3.12''" "[]" "[]"]
    by (simp add: str_or_def)
  finally show ?thesis using no yes by simp
qed

subsection \<open>The dependency questions\<close>

text \<open>
  Claim C1. The user accepts the question for the runtime scope, enters the name
  \<^verbatim>\<open>requests\<close> and the version \<^verbatim>\<open>>=2.0\<close>, and answers \<^verbatim>\<open>no\<close> to "Add another dependency?".
  The script prints "Added!" and then leaves the loop at line 74, before the assignment
  of line 75: the mapping it returns is empty, the entry is lost.
\<close>

theorem query_dependencies_drops_last_entry:
  "query_dependencies ''runtime''
     \<lparr>stdin = [Line ''y'', Line ''requests'', Line ''>=2.0'', Line ''no''], stdout = []\<rparr>
   = (Inr [],
      \<lparr>stdin = [],
       stdout =
         [Prompt ''Add runtime dependencies? (y/n) '',
          Printed ''Please enter the dependencies you want to add.'',
          Printed ''Press Ctrl+C to leave empty and move on.'',
          Prompt ''Add a dependency (e.g. requests): '',
          Prompt ''Version of requests (default: empty): '',
          Printed ''Added!'',
          Prompt ''Add another dependency? (y/n) '',
          Printed ''Understood, let's move on.'']\<rparr>)"
  by code_simp

lemma ask_nonempty: "ask p [] m c = (Inr s, c') \<Longrightarrow> s \<noteq> []"
proof (induction p "[] :: string" m c arbitrary: s c' rule: ask.induct)
  case (1 prompt complaint c)
  obtain r c1 where i: "input prompt c = (r, c1)" by (cases "input prompt c")
  show ?case
  proof (cases r)
    case (Inl e)
    with i "1.prems" show ?thesis by (simp add: ask.simps [of prompt "[]" complaint c])
  next
    case (Inr t)
    show ?thesis
    proof (cases "str_or t [] = []")
      case True
      with i Inr "1.prems" have "ask prompt [] complaint (print complaint c1) = (Inr s, c')"
        by (simp add: ask.simps [of prompt "[]" complaint c])
      from "1.hyps" [OF i [symmetric] Inr True this] show ?thesis .
    next
      case False
      with i Inr "1.prems" show ?thesis
        by (auto simp: ask.simps [of prompt "[]" complaint c])
    qed
  qed
qed

lemma ask_dependency_nonempty:
  assumes "ask_dependency c = (Inr (dep, version, another), c')"
  shows "dep \<noteq> [] \<and> version \<noteq> []"
  using assms
  by (auto simp: ask_dependency_def and_then_def return_def
      split: prod.splits sum.splits dest: ask_nonempty)

lemma set_update_subset: "set (AList.update k v al) \<subseteq> insert (k, v) (set al)"
  by (induction al) auto

lemma deps_loop_versions:
  "deps_loop scope deps c = (Inr deps', c') \<Longrightarrow> \<forall>(d, v) \<in> set deps. d \<noteq> [] \<and> v \<noteq> [] \<Longrightarrow>
     \<forall>(d, v) \<in> set deps'. d \<noteq> [] \<and> v \<noteq> []"
proof (induction scope deps c arbitrary: deps' c' rule: deps_loop.induct)
  case (1 scope deps c)
  let ?q = "''Add '' @ scope @ '' dependencies? (y/n) ''"
  obtain r c1 where i: "input ?q c = (r, c1)" by (cases "input ?q c")
  show ?case
  proof (cases r)
    case (Inl e)
    with i "1.prems" show ?thesis by (simp add: deps_loop.simps [of scope deps c])
  next
    case (Inr s)
    show ?thesis
    proof (cases "lower s \<noteq> ''y''")
      case True
      with i Inr "1.prems" show ?thesis by (simp add: deps_loop.simps [of scope deps c])
    next
      case yes: False
      obtain r2 c2 where a: "ask_dependency c1 = (r2, c2)" by (cases "ask_dependency c1")
      show ?thesis
      proof (cases r2)
        case (Inl e)
        with i Inr yes a "1.prems" show ?thesis
          by (auto simp: deps_loop.simps [of scope deps c] split: if_splits)
      next
        case entry: (Inr x)
        obtain dep version another where x: "x = (dep, version, another)" by (cases x)
        show ?thesis
        proof (cases "lower another \<noteq> ''y''")
          case True
          with i Inr yes a entry x "1.prems" show ?thesis
            by (simp add: deps_loop.simps [of scope deps c])
        next
          case again: False
          with i Inr yes a entry x "1.prems"
          have run: "deps_loop scope (AList.update dep version deps) c2 = (Inr deps', c')"
            by (simp add: deps_loop.simps [of scope deps c])
          from a entry x have "dep \<noteq> [] \<and> version \<noteq> []"
            using ask_dependency_nonempty by simp
          with "1.prems"(2) set_update_subset [of dep version deps]
          have inv: "\<forall>(d, v) \<in> set (AList.update dep version deps). d \<noteq> [] \<and> v \<noteq> []"
            by auto
          from yes have y: "\<not> lower s \<noteq> ''y''" by simp
          from "1.IH" [OF i [symmetric] Inr y a [symmetric] entry x [symmetric] refl again run inv]
          show ?thesis .
        qed
      qed
    qed
  qed
qed

lemma ask_dependency_entry:
  assumes "dep \<noteq> []" and "version \<noteq> []"
  shows "ask_dependency
      \<lparr>stdin = replicate k (Line []) @ Line dep # replicate j (Line []) @ Line version #
               Line another # rest,
       stdout = out\<rparr>
    = (Inr (dep, version, another),
       \<lparr>stdin = rest,
        stdout = out
          @ [Printed ''Please enter the dependencies you want to add.'',
             Printed ''Press Ctrl+C to leave empty and move on.'']
          @ concat (replicate k [Prompt ''Add a dependency (e.g. requests): '',
                                 Printed ''Please enter a dependency, or press Ctrl+C to exit.''])
          @ [Prompt ''Add a dependency (e.g. requests): '']
          @ concat (replicate j [Prompt (''Version of '' @ dep @ '' (default: empty): ''),
                                 Printed ''Please enter a version, or press Ctrl+C to exit.''])
          @ [Prompt (''Version of '' @ dep @ '' (default: empty): ''),
             Printed ''Added!'',
             Prompt ''Add another dependency? (y/n) '']\<rparr>)"
  using assms
  by (simp add: ask_dependency_def and_then_def print_console ask_retry input_Line return_def)

lemma ask_dependency_interrupted:
  assumes "dep \<noteq> []" and "version \<noteq> []"
    and "pre = replicate k (Line [])
       \<or> pre = replicate k (Line []) @ Line dep # replicate j (Line [])
       \<or> pre = replicate k (Line []) @ Line dep # replicate j (Line []) @ [Line version]"
  shows "fst (ask_dependency \<lparr>stdin = pre @ Interrupt # rest, stdout = out\<rparr>) = Inl KeyboardInterrupt
       \<and> stdin (snd (ask_dependency \<lparr>stdin = pre @ Interrupt # rest, stdout = out\<rparr>)) = rest"
  using assms
  by (auto simp: ask_dependency_def and_then_def print_console ask_empty_Lines ask_Line
        ask_Interrupt input_Interrupt return_def)

lemma deps_loop_Line:
  "deps_loop scope deps \<lparr>stdin = Line a # r, stdout = out\<rparr> =
     (if lower a \<noteq> ''y''
      then (Inr deps, \<lparr>stdin = r, stdout = out @ [Prompt (''Add '' @ scope @ '' dependencies? (y/n) '')]\<rparr>)
      else
        (case ask_dependency
                \<lparr>stdin = r, stdout = out @ [Prompt (''Add '' @ scope @ '' dependencies? (y/n) '')]\<rparr> of
           (Inl e, c2) \<Rightarrow> if e = KeyboardInterrupt then (Inr [], c2) else (Inl e, c2)
         | (Inr (dep, version, another), c2) \<Rightarrow>
             if lower another \<noteq> ''y'' then (Inr deps, c2)
             else deps_loop scope (AList.update dep version deps) c2))"
  by (simp add: deps_loop.simps [of scope deps "\<lparr>stdin = Line a # r, stdout = out\<rparr>"] input_Line)

lemma deps_loop_interrupted:
  assumes "lower a = ''y''" and "dep \<noteq> []" and "version \<noteq> []"
    and "pre = replicate k (Line [])
       \<or> pre = replicate k (Line []) @ Line dep # replicate j (Line [])
       \<or> pre = replicate k (Line []) @ Line dep # replicate j (Line []) @ [Line version]"
  shows "fst (deps_loop scope deps \<lparr>stdin = Line a # pre @ Interrupt # rest, stdout = out\<rparr>) = Inr []
       \<and> stdin (snd (deps_loop scope deps \<lparr>stdin = Line a # pre @ Interrupt # rest, stdout = out\<rparr>)) = rest"
proof -
  let ?c1 = "\<lparr>stdin = pre @ Interrupt # rest,
              stdout = out @ [Prompt (''Add '' @ scope @ '' dependencies? (y/n) '')]\<rparr>"
  obtain r c2 where a: "ask_dependency ?c1 = (r, c2)" by (cases "ask_dependency ?c1")
  with ask_dependency_interrupted [OF assms(2,3,4), of rest]
  have "r = Inl KeyboardInterrupt" "stdin c2 = rest"
    by (metis fst_conv, metis snd_conv)
  with a assms(1) show ?thesis
    by (simp add: deps_loop_Line)
qed

lemma query_dependencies_result:
  "deps_loop scope [] c = (Inr deps, c') \<Longrightarrow>
     query_dependencies scope c = (Inr deps, print ''Understood, let's move on.'' c')"
  by (simp add: query_dependencies_def and_then_def)

text \<open>
  Claim C6. At the version question an empty line is never a value: each one is
  answered by the complaint and the question again, and the entry gets the first line
  that is not empty. So no mapping that \<open>query_dependencies\<close> returns holds an empty
  version.
\<close>

theorem query_dependencies_versions_nonempty:
  assumes "lower a1 = ''y''" and "lower a2 = ''y''" and "lower a3 \<noteq> ''y''"
    and "dep \<noteq> []" and "version \<noteq> []"
  shows "query_dependencies scope
      \<lparr>stdin = Line a1 # Line dep # replicate j (Line []) @ Line version # Line a2 # Line a3 # rest,
       stdout = out\<rparr>
    = (Inr [(dep, version)],
       \<lparr>stdin = rest,
        stdout = out
          @ [Prompt (''Add '' @ scope @ '' dependencies? (y/n) ''),
             Printed ''Please enter the dependencies you want to add.'',
             Printed ''Press Ctrl+C to leave empty and move on.'',
             Prompt ''Add a dependency (e.g. requests): '']
          @ concat (replicate j [Prompt (''Version of '' @ dep @ '' (default: empty): ''),
                                 Printed ''Please enter a version, or press Ctrl+C to exit.''])
          @ [Prompt (''Version of '' @ dep @ '' (default: empty): ''),
             Printed ''Added!'',
             Prompt ''Add another dependency? (y/n) '',
             Prompt (''Add '' @ scope @ '' dependencies? (y/n) ''),
             Printed ''Understood, let's move on.'']\<rparr>)
    \<and> (\<forall>scope' c deps c'. query_dependencies scope' c = (Inr deps, c') \<longrightarrow>
           (\<forall>(d, v) \<in> set deps. v \<noteq> []))"
proof (intro conjI allI impI)
  show "query_dependencies scope
      \<lparr>stdin = Line a1 # Line dep # replicate j (Line []) @ Line version # Line a2 # Line a3 # rest,
       stdout = out\<rparr>
    = (Inr [(dep, version)],
       \<lparr>stdin = rest,
        stdout = out
          @ [Prompt (''Add '' @ scope @ '' dependencies? (y/n) ''),
             Printed ''Please enter the dependencies you want to add.'',
             Printed ''Press Ctrl+C to leave empty and move on.'',
             Prompt ''Add a dependency (e.g. requests): '']
          @ concat (replicate j [Prompt (''Version of '' @ dep @ '' (default: empty): ''),
                                 Printed ''Please enter a version, or press Ctrl+C to exit.''])
          @ [Prompt (''Version of '' @ dep @ '' (default: empty): ''),
             Printed ''Added!'',
             Prompt ''Add another dependency? (y/n) '',
             Prompt (''Add '' @ scope @ '' dependencies? (y/n) ''),
             Printed ''Understood, let's move on.'']\<rparr>)"
    using assms ask_dependency_entry [OF assms(4,5), of 0 j]
    by (simp add: query_dependencies_def and_then_def deps_loop_Line print_console)
next
  fix scope' c deps c'
  assume run: "query_dependencies scope' c = (Inr deps, c')"
  then obtain c1 where "deps_loop scope' [] c = (Inr deps, c1)"
    by (auto simp: query_dependencies_def and_then_def split: prod.splits sum.splits)
  from deps_loop_versions [OF this] show "\<forall>(d, v) \<in> set deps. v \<noteq> []"
    by auto
qed

theorem query_dependencies_versions_nonempty_witness:
  "query_dependencies ''runtime''
      \<lparr>stdin = [Line ''y'', Line ''requests'', Line [], Line [], Line ''>=2.0'', Line ''y'', Line ''n''],
       stdout = []\<rparr>
    = (Inr [(''requests'', ''>=2.0'')],
       \<lparr>stdin = [],
        stdout =
          [Prompt ''Add runtime dependencies? (y/n) '',
           Printed ''Please enter the dependencies you want to add.'',
           Printed ''Press Ctrl+C to leave empty and move on.'',
           Prompt ''Add a dependency (e.g. requests): '',
           Prompt ''Version of requests (default: empty): '',
           Printed ''Please enter a version, or press Ctrl+C to exit.'',
           Prompt ''Version of requests (default: empty): '',
           Printed ''Please enter a version, or press Ctrl+C to exit.'',
           Prompt ''Version of requests (default: empty): '',
           Printed ''Added!'',
           Prompt ''Add another dependency? (y/n) '',
           Prompt ''Add runtime dependencies? (y/n) '',
           Printed ''Understood, let's move on.'']\<rparr>)
   \<and> ''>=2.0'' \<noteq> []"
proof -
  have a: "lower ''y'' = ''y''" "lower ''n'' \<noteq> ''y''" "''requests'' \<noteq> []" "''>=2.0'' \<noteq> []"
    by (simp_all add: lower_eq_y)
  from query_dependencies_versions_nonempty [OF a(1) a(1) a(2) a(3) a(4), of "''runtime''" 2 "[]" "[]"]
  show ?thesis
    by (simp add: numeral_2_eq_2)
qed

text \<open>
  Claim C5. Ctrl+C at the name question, at the version question or at "Add another
  dependency?" (after any number of empty lines) ends the loop with the empty mapping,
  whatever \<open>deps\<close> held before, and \<open>query_dependencies\<close> returns it. A mapping that
  an earlier call has returned is a value of its own: of two calls in sequence, the
  first keeps its result when the second is interrupted.
\<close>

theorem query_dependencies_interrupt:
  assumes "lower a = ''y''" and "dep \<noteq> []" and "version \<noteq> []"
    and "pre = replicate k (Line [])
       \<or> pre = replicate k (Line []) @ Line dep # replicate j (Line [])
       \<or> pre = replicate k (Line []) @ Line dep # replicate j (Line []) @ [Line version]"
  shows "fst (deps_loop scope deps \<lparr>stdin = Line a # pre @ Interrupt # rest, stdout = out\<rparr>) = Inr []
     \<and> stdin (snd (deps_loop scope deps \<lparr>stdin = Line a # pre @ Interrupt # rest, stdout = out\<rparr>)) = rest
     \<and> fst (query_dependencies scope \<lparr>stdin = Line a # pre @ Interrupt # rest, stdout = out\<rparr>) = Inr []
     \<and> stdin (snd (query_dependencies scope \<lparr>stdin = Line a # pre @ Interrupt # rest, stdout = out\<rparr>))
         = rest
     \<and> (fst (query_dependencies scope0 c0) = Inr deps0 \<longrightarrow>
        stdin (snd (query_dependencies scope0 c0)) = Line a # pre @ Interrupt # rest \<longrightarrow>
          fst (and_then (query_dependencies scope0)
                 (\<lambda>d0. and_then (query_dependencies scope) (\<lambda>d. return (d0, d))) c0)
          = Inr (deps0, []))"
proof -
  have loop: "fst (deps_loop scope ds \<lparr>stdin = Line a # pre @ Interrupt # rest, stdout = out'\<rparr>) = Inr []
     \<and> stdin (snd (deps_loop scope ds \<lparr>stdin = Line a # pre @ Interrupt # rest, stdout = out'\<rparr>)) = rest"
    for ds out'
    by (rule deps_loop_interrupted [OF assms])
  have query: "fst (query_dependencies scope \<lparr>stdin = Line a # pre @ Interrupt # rest, stdout = out'\<rparr>) = Inr []
     \<and> stdin (snd (query_dependencies scope \<lparr>stdin = Line a # pre @ Interrupt # rest, stdout = out'\<rparr>))
         = rest" for out'
  proof -
    let ?c = "\<lparr>stdin = Line a # pre @ Interrupt # rest, stdout = out'\<rparr>"
    obtain r c1 where d: "deps_loop scope [] ?c = (r, c1)" by (cases "deps_loop scope [] ?c")
    with loop [of "[]" out'] have "r = Inr []" "stdin c1 = rest" by simp_all
    with d show ?thesis
      by (simp add: query_dependencies_def and_then_def stdin_print)
  qed
  have seq: "fst (and_then (query_dependencies scope0)
                 (\<lambda>d0. and_then (query_dependencies scope) (\<lambda>d. return (d0, d))) c0)
          = Inr (deps0, [])"
    if first: "fst (query_dependencies scope0 c0) = Inr deps0"
      and left: "stdin (snd (query_dependencies scope0 c0)) = Line a # pre @ Interrupt # rest"
  proof -
    obtain c1 where q0: "query_dependencies scope0 c0 = (Inr deps0, c1)"
      using first by (cases "query_dependencies scope0 c0") simp
    with left have "c1 = \<lparr>stdin = Line a # pre @ Interrupt # rest, stdout = stdout c1\<rparr>"
      by simp
    with query [of "stdout c1"]
    have "fst (query_dependencies scope c1) = Inr []" by simp
    then obtain c2 where "query_dependencies scope c1 = (Inr [], c2)"
      by (cases "query_dependencies scope c1") simp
    with q0 show ?thesis
      by (simp add: and_then_def return_def)
  qed
  from loop [of deps out] query [of out] seq show ?thesis by blast
qed

theorem query_dependencies_interrupt_witness:
  "fst (and_then (query_dependencies ''runtime'')
          (\<lambda>d0. and_then (query_dependencies ''development'') (\<lambda>d. return (d0, d)))
          \<lparr>stdin = [Line ''y'', Line ''requests'', Line ''>=2.0'', Line ''y'', Line ''n'',
                    Line ''y'', Line ''numpy'', Line [], Interrupt, Line ''next''],
           stdout = []\<rparr>)
   = Inr ([(''requests'', ''>=2.0'')], [])
   \<and> fst (deps_loop ''development'' [(''black'', ''>=23'')]
           \<lparr>stdin = [Line ''y'', Line ''numpy'', Line [], Interrupt, Line ''next''], stdout = []\<rparr>)
     = Inr []"
proof -
  let ?c0 = "\<lparr>stdin = [Line ''y'', Line ''requests'', Line ''>=2.0'', Line ''y'', Line ''n'',
                    Line ''y'', Line ''numpy'', Line [], Interrupt, Line ''next''],
           stdout = []\<rparr>"
  have a: "lower ''y'' = ''y''" "''numpy'' \<noteq> []" "''1'' \<noteq> []"
    by (simp_all add: lower_eq_y)
  have pre: "[Line ''numpy'', Line []] = replicate 0 (Line [])
       \<or> [Line ''numpy'', Line []] = replicate 0 (Line []) @ Line ''numpy'' # replicate 1 (Line [])
       \<or> [Line ''numpy'', Line []]
          = replicate 0 (Line []) @ Line ''numpy'' # replicate 1 (Line []) @ [Line ''1'']"
    by simp
  have first: "fst (query_dependencies ''runtime'' ?c0) = Inr [(''requests'', ''>=2.0'')]"
    by code_simp
  have left: "stdin (snd (query_dependencies ''runtime'' ?c0))
      = Line ''y'' # [Line ''numpy'', Line []] @ Interrupt # [Line ''next'']"
    by code_simp
  from query_dependencies_interrupt [OF a pre, of "''development''" "[(''black'', ''>=23'')]"
      "[Line ''next'']" "[]" "''runtime''" ?c0 "[(''requests'', ''>=2.0'')]"] first left
  show ?thesis by simp
qed

subsection \<open>The walk over the working directory\<close>

lemma isdir_listed: "isdir p w \<Longrightarrow> p \<in> set (listdir w)"
  by (auto simp: isdir_def listdir_def split: option.splits dest: map_of_SomeD intro: rev_image_eqI)

lemma read_file_isfile:
  "isfile path w \<Longrightarrow> \<exists>text. read_file path w = (Inr text, w) \<and> map_of (cwd w) path = Some (File text)"
  by (auto simp: isfile_def read_file_def split: option.splits node.splits)

lemma write_file_isfile:
  "isfile path w \<Longrightarrow>
     write_file path text w
       = (Inr (), w\<lparr>cwd := AList.update path (File text) (cwd w),
                    written := written w @ [(path, text)]\<rparr>)"
  by (auto simp: isfile_def write_file_def split: option.splits node.splits)

lemma isdir_rewritten:
  "\<not> isdir path w \<Longrightarrow>
     isdir q (w\<lparr>cwd := AList.update path (File text) (cwd w), written := ws\<rparr>) = isdir q w"
  by (simp add: isdir_def update_conv' split: option.splits node.splits)

lemma listdir_rewritten:
  "isfile path w \<Longrightarrow>
     listdir (w\<lparr>cwd := AList.update path (File text) (cwd w), written := ws\<rparr>) = listdir w"
  by (auto simp: isfile_def listdir_def update_keys split: option.splits dest: map_of_SomeD
        intro: rev_image_eqI)

lemma rename_entries_file:
  assumes "\<not> isdir path w" and "isfile path w"
  shows "\<exists>body. map_of (cwd w) path = Some (File body) \<and>
    rename_entries depth name (path # paths) w
      = rename_entries depth name paths
          (w\<lparr>cwd := AList.update path (File (replace ''project_name'' name body)) (cwd w),
             written := written w @ [(path, replace ''project_name'' name body)]\<rparr>)"
proof -
  from read_file_isfile [OF assms(2)] obtain body
    where r: "read_file path w = (Inr body, w)" and t: "map_of (cwd w) path = Some (File body)"
    by blast
  from assms r write_file_isfile [OF assms(2)] t show ?thesis
    by simp
qed

lemma rename_entries_dir:
  assumes IH: "\<And>name w' p. isdir p w' \<Longrightarrow> fst (rename_project depth name w') = Inl RecursionError"
  shows "\<exists>p \<in> set paths. isdir p w \<Longrightarrow> fst (rename_entries depth name paths w) = Inl RecursionError"
proof (induction paths arbitrary: w)
  case Nil
  then show ?case by simp
next
  case (Cons path paths)
  show ?case
  proof (cases "isdir path w")
    case True
    obtain r w' where c: "rename_project depth path w = (r, w')"
      by (cases "rename_project depth path w")
    with IH [OF True, of path] have "r = Inl RecursionError" by simp
    with True c show ?thesis by simp
  next
    case False
    with Cons.prems have later: "\<exists>p \<in> set paths. isdir p w" by auto
    show ?thesis
    proof (cases "isfile path w")
      case True
      from rename_entries_file [OF False True, of depth name paths] obtain body where
        step: "rename_entries depth name (path # paths) w
          = rename_entries depth name paths
              (w\<lparr>cwd := AList.update path (File (replace ''project_name'' name body)) (cwd w),
                 written := written w @ [(path, replace ''project_name'' name body)]\<rparr>)"
        by blast
      from later have "\<exists>p \<in> set paths.
          isdir p (w\<lparr>cwd := AList.update path (File (replace ''project_name'' name body)) (cwd w),
                 written := written w @ [(path, replace ''project_name'' name body)]\<rparr>)"
        by (simp add: isdir_rewritten [OF False])
      from Cons.IH [OF this] step show ?thesis by simp
    next
      case neither: False
      from Cons.IH [OF later] False neither show ?thesis by simp
    qed
  qed
qed

lemma rename_project_dir:
  "isdir p w \<Longrightarrow> fst (rename_project depth name w) = Inl RecursionError"
proof (induction depth arbitrary: name w p)
  case 0
  then show ?case by simp
next
  case (Suc depth)
  from Suc.prems have "\<exists>p \<in> set (listdir w). isdir p w"
    by (auto dest: isdir_listed)
  from rename_entries_dir [of depth, OF Suc.IH this] show ?case by simp
qed

lemma rename_project_first_dir:
  "listdir w = p # ps \<Longrightarrow> isdir p w \<Longrightarrow> rename_project depth name w = (Inl RecursionError, w)"
proof (induction depth arbitrary: name)
  case 0
  then show ?case by simp
next
  case (Suc depth)
  from Suc.IH [OF Suc.prems, of p] Suc.prems show ?case by simp
qed

lemma rename_entries_untouched:
  assumes IH: "\<And>name w'. q \<notin> set (takeWhile (\<lambda>p. \<not> isdir p w') (listdir w')) \<Longrightarrow>
                 map_of (cwd (snd (rename_project depth name w'))) q = map_of (cwd w') q"
  shows "q \<notin> set (takeWhile (\<lambda>p. \<not> isdir p w) (listdir w)) \<Longrightarrow>
         q \<notin> set (takeWhile (\<lambda>p. \<not> isdir p w) paths) \<Longrightarrow>
         map_of (cwd (snd (rename_entries depth name paths w))) q = map_of (cwd w) q"
proof (induction paths arbitrary: w)
  case Nil
  then show ?case by simp
next
  case (Cons path paths)
  show ?case
  proof (cases "isdir path w")
    case True
    obtain r w' where c: "rename_project depth path w = (r, w')"
      by (cases "rename_project depth path w")
    from rename_project_dir [OF True, of depth path] c have "r = Inl RecursionError" by simp
    with True c IH [OF Cons.prems(1), of path] show ?thesis by simp
  next
    case False
    with Cons.prems(2) have q: "q \<noteq> path" "q \<notin> set (takeWhile (\<lambda>p. \<not> isdir p w) paths)"
      by simp_all
    show ?thesis
    proof (cases "isfile path w")
      case True
      from rename_entries_file [OF False True, of depth name paths] obtain body where
        step: "rename_entries depth name (path # paths) w
          = rename_entries depth name paths
              (w\<lparr>cwd := AList.update path (File (replace ''project_name'' name body)) (cwd w),
                 written := written w @ [(path, replace ''project_name'' name body)]\<rparr>)"
        by blast
      let ?w = "w\<lparr>cwd := AList.update path (File (replace ''project_name'' name body)) (cwd w),
                 written := written w @ [(path, replace ''project_name'' name body)]\<rparr>"
      have same: "(\<lambda>p. \<not> isdir p ?w) = (\<lambda>p. \<not> isdir p w)" "listdir ?w = listdir w"
        by (simp_all add: isdir_rewritten [OF False] listdir_rewritten [OF True])
      from Cons.prems(1) q(2) same
      have "q \<notin> set (takeWhile (\<lambda>p. \<not> isdir p ?w) (listdir ?w))"
        "q \<notin> set (takeWhile (\<lambda>p. \<not> isdir p ?w) paths)"
        by simp_all
      from Cons.IH [OF this] step q(1) show ?thesis
        by (simp add: update_conv')
    next
      case neither: False
      from Cons.IH [OF Cons.prems(1) q(2)] False neither show ?thesis by simp
    qed
  qed
qed

lemma rename_project_untouched:
  "q \<notin> set (takeWhile (\<lambda>p. \<not> isdir p w) (listdir w)) \<Longrightarrow>
     map_of (cwd (snd (rename_project depth name w))) q = map_of (cwd w) q"
proof (induction depth arbitrary: name w)
  case 0
  then show ?case by simp
next
  case (Suc depth)
  from rename_entries_untouched [of q depth, OF Suc.IH Suc.prems Suc.prems] show ?case
    by simp
qed

text \<open>
  Claim C2. The working directory lists a file, then the directory \<^verbatim>\<open>src\<close>, then another
  file. Whatever room the stack has, \<open>rename_project\<close> ends in \<^verbatim>\<open>RecursionError\<close>: at
  \<^verbatim>\<open>src\<close> it calls itself with the name \<^verbatim>\<open>src\<close> on the same directory, and so on. The
  file below \<^verbatim>\<open>src\<close> still holds \<^verbatim>\<open>project_name.utils\<close>, and the file listed after
  \<^verbatim>\<open>src\<close> is never reached.
\<close>

theorem rename_project_never_descends:
  "fst (rename_project limit ''acme''
          \<lparr>cwd = [(''README.md'', File ''About project_name''),
                  (''src'', Dir [(''project_name'', Dir [(''core.py'', File ''import project_name.utils'')])]),
                  (''setup.cfg'', File ''name = project_name'')],
           console = \<lparr>stdin = [], stdout = []\<rparr>,
           written = []\<rparr>)
     = Inl RecursionError
   \<and> map_of (cwd (snd (rename_project limit ''acme''
          \<lparr>cwd = [(''README.md'', File ''About project_name''),
                  (''src'', Dir [(''project_name'', Dir [(''core.py'', File ''import project_name.utils'')])]),
                  (''setup.cfg'', File ''name = project_name'')],
           console = \<lparr>stdin = [], stdout = []\<rparr>,
           written = []\<rparr>))) ''src''
     = Some (Dir [(''project_name'', Dir [(''core.py'', File ''import project_name.utils'')])])
   \<and> map_of (cwd (snd (rename_project limit ''acme''
          \<lparr>cwd = [(''README.md'', File ''About project_name''),
                  (''src'', Dir [(''project_name'', Dir [(''core.py'', File ''import project_name.utils'')])]),
                  (''setup.cfg'', File ''name = project_name'')],
           console = \<lparr>stdin = [], stdout = []\<rparr>,
           written = []\<rparr>))) ''setup.cfg''
     = Some (File ''name = project_name'')"
proof -
  let ?w = "\<lparr>cwd = [(''README.md'', File ''About project_name''),
                  (''src'', Dir [(''project_name'', Dir [(''core.py'', File ''import project_name.utils'')])]),
                  (''setup.cfg'', File ''name = project_name'')],
           console = \<lparr>stdin = [], stdout = []\<rparr>,
           written = []\<rparr>"
  have dir: "isdir ''src'' ?w"
    by (simp add: isdir_def)
  have prefix: "takeWhile (\<lambda>p. \<not> isdir p ?w) (listdir ?w) = [''README.md'']"
    by (simp add: isdir_def listdir_def)
  have "''src'' \<notin> set (takeWhile (\<lambda>p. \<not> isdir p ?w) (listdir ?w))"
    and "''setup.cfg'' \<notin> set (takeWhile (\<lambda>p. \<not> isdir p ?w) (listdir ?w))"
    unfolding prefix by simp_all
  from rename_project_dir [OF dir, of limit "''acme''"]
    rename_project_untouched [OF this(1), of limit "''acme''"]
    rename_project_untouched [OF this(2), of limit "''acme''"]
  show ?thesis by simp
qed

subsection \<open>The license\<close>

lemma replace_hit: "old \<noteq> [] \<Longrightarrow> replace old new (old @ t) = new @ replace old new t"
  by (cases old) simp_all

lemma replace_miss:
  "old \<noteq> [] \<Longrightarrow> take (length old) (c # cs) \<noteq> old \<Longrightarrow> replace old new (c # cs) = c # replace old new cs"
  by simp

lemma replace_skip:
  "old \<noteq> [] \<Longrightarrow> hd old \<notin> set p \<Longrightarrow> replace old new (p @ t) = p @ replace old new t"
proof (induction p)
  case Nil
  then show ?case by simp
next
  case (Cons a p)
  from Cons.prems have "take (length old) (a # p @ t) \<noteq> old"
    by (cases old) auto
  with Cons show ?case by simp
qed

lemma replace_keeps_prefix:
  assumes "old \<noteq> []" and "new \<noteq> []" and "hd new \<notin> set p"
  shows "take (length p) (replace old new t) = p \<Longrightarrow> take (length p) t = p"
  using assms(3)
proof (induction p arbitrary: t)
  case Nil
  then show ?case by simp
next
  case (Cons a p)
  show ?case
  proof (cases t)
    case Nil
    with Cons.prems assms(1) show ?thesis by simp
  next
    case (Cons c cs)
    show ?thesis
    proof (cases "take (length old) (c # cs) = old")
      case True
      with Cons assms(1) have "replace old new t = new @ replace old new (drop (length old) t)"
        by simp
      with Cons.prems(1) assms(2) have "hd new = a"
        by (cases new) simp_all
      with Cons.prems(2) show ?thesis by simp
    next
      case False
      with Cons assms(1) have r: "replace old new t = c # replace old new cs"
        by simp
      with Cons.prems(1) have "a = c" "take (length p) (replace old new cs) = p"
        by simp_all
      with Cons.IH [of cs] Cons.prems(2) Cons show ?thesis by simp
    qed
  qed
qed

lemma str_nat_digits: "str_nat n \<noteq> [] \<and> set (str_nat n) \<subseteq> set ''0123456789''"
proof (induction n rule: str_nat.induct)
  case (1 n)
  have digit: "d < 10 \<Longrightarrow> digit_char d \<in> set ''0123456789''" for d
    unfolding digit_char_def by (rule nth_mem) simp
  show ?case
  proof (cases "n < 10")
    case True
    with digit [of n] show ?thesis
      by (simp add: str_nat.simps [of n])
  next
    case False
    with "1.IH" digit [of "n mod 10"] show ?thesis
      by (simp add: str_nat.simps [of n])
  qed
qed

lemma replace_year_over_name:
  "replace ''<year>'' y (''<name>'' @ t) = ''<name>'' @ replace ''<year>'' y t"
  by simp

lemma replace_year_Cons:
  "replace ''<year>'' y (c # cs) =
     (if take 6 (c # cs) = ''<year>'' then y @ replace ''<year>'' y (drop 6 (c # cs))
      else c # replace ''<year>'' y cs)"
proof -
  have "length ''<year>'' = 6" and "''<year>'' \<noteq> []" by simp_all
  then show ?thesis
    using replace.simps(2) [of "''<year>''" y c cs] by (simp only: if_False)
qed

lemma replace_name_Cons:
  "replace ''<name>'' n (c # cs) =
     (if take 6 (c # cs) = ''<name>'' then n @ replace ''<name>'' n (drop 6 (c # cs))
      else c # replace ''<name>'' n cs)"
proof -
  have "length ''<name>'' = 6" and "''<name>'' \<noteq> []" by simp_all
  then show ?thesis
    using replace.simps(2) [of "''<name>''" n c cs] by (simp only: if_False)
qed

lemma two_passes:
  assumes "y \<noteq> []" and "set y \<subseteq> set ''0123456789''"
  shows "replace ''<name>'' n (replace ''<year>'' y s) = license_spec y n s"
proof (induction s rule: length_induct)
  case (1 s)
  from assms have hd_y: "hd y \<in> set ''0123456789''"
    by (cases y) auto
  from assms(2) have no_lt: "hd ''<name>'' \<notin> set y"
    by auto
  show ?case
  proof (cases s)
    case Nil
    then show ?thesis by simp
  next
    case (Cons c cs)
    show ?thesis
    proof (cases "take 6 s = ''<year>''")
      case True
      define t where "t = drop 6 s"
      with True have s: "s = ''<year>'' @ t"
        by (metis append_take_drop_id)
      then have "length t < length s" by simp
      with "1.IH" have IH: "replace ''<name>'' n (replace ''<year>'' y t) = license_spec y n t"
        by blast
      have "replace ''<year>'' y s = y @ replace ''<year>'' y t"
        unfolding s by (rule replace_hit) simp
      then have "replace ''<name>'' n (replace ''<year>'' y s)
          = y @ replace ''<name>'' n (replace ''<year>'' y t)"
        using replace_skip [of "''<name>''" y n] no_lt by simp
      moreover have "license_spec y n s = y @ license_spec y n t"
        unfolding s by simp
      ultimately show ?thesis using IH by simp
    next
      case not_year: False
      show ?thesis
      proof (cases "take 6 s = ''<name>''")
        case True
        define t where "t = drop 6 s"
        with True have s: "s = ''<name>'' @ t"
          by (metis append_take_drop_id)
        then have "length t < length s" by simp
        with "1.IH" have IH: "replace ''<name>'' n (replace ''<year>'' y t) = license_spec y n t"
          by blast
        have "replace ''<year>'' y s = ''<name>'' @ replace ''<year>'' y t"
          unfolding s by (rule replace_year_over_name)
        then have "replace ''<name>'' n (replace ''<year>'' y s)
            = n @ replace ''<name>'' n (replace ''<year>'' y t)"
          using replace_hit [of "''<name>''" n] by simp
        moreover have "license_spec y n s = n @ license_spec y n t"
          unfolding s by simp
        ultimately show ?thesis using IH by simp
      next
        case not_name: False
        from Cons "1.IH" have IH: "replace ''<name>'' n (replace ''<year>'' y cs) = license_spec y n cs"
          by simp
        from not_year have step: "replace ''<year>'' y s = c # replace ''<year>'' y cs"
          unfolding Cons by (simp only: replace_year_Cons if_False)
        have "take 6 (c # replace ''<year>'' y cs) \<noteq> ''<name>''"
        proof
          assume hit: "take 6 (c # replace ''<year>'' y cs) = ''<name>''"
          then have c: "c = CHR ''<''" and rest: "take 5 (replace ''<year>'' y cs) = ''name>''"
            by simp_all
          have len: "length ''name>'' = 5" by simp
          from hd_y have "hd y \<notin> set ''name>''" by auto
          from replace_keeps_prefix [of "''<year>''" y "''name>''" cs, OF _ assms(1) this] rest
          have "take 5 cs = ''name>''"
            by (simp only: len) simp
          with c Cons have "take 6 s = ''<name>''" by simp
          with not_name show False by contradiction
        qed
        then have "replace ''<name>'' n (c # replace ''<year>'' y cs)
            = c # replace ''<name>'' n (replace ''<year>'' y cs)"
          by (simp only: replace_name_Cons if_False)
        moreover from not_year not_name have "license_spec y n s = c # license_spec y n cs"
          unfolding Cons by (simp only: license_spec.simps if_False)
        ultimately show ?thesis using step IH by simp
      qed
    qed
  qed
qed

lemma update_license_run:
  assumes "map_of (cwd w) ''LICENSE'' = Some (File body)"
  shows "update_license this_year name w
    = (Inr (),
       w\<lparr>cwd := AList.update ''LICENSE''
                  (File (replace ''<name>'' name (replace ''<year>'' (str_nat this_year) body))) (cwd w),
         written := written w
           @ [(''LICENSE'', replace ''<name>'' name (replace ''<year>'' (str_nat this_year) body))]\<rparr>)"
  using assms by (simp add: update_license_def and_then_def read_file_def write_file_def)

text \<open>
  Claim C8. When \<^verbatim>\<open>LICENSE\<close> is a regular file, \<open>update_license\<close> overwrites it with
  its text in which every \<^verbatim>\<open><year>\<close> is the year in decimal digits and every
  \<^verbatim>\<open><name>\<close> is the author's name, all other text as it was: the two calls of
  \<^verbatim>\<open>replace\<close> of the script give what the contract \<open>license_spec\<close> gives. No other
  file changes.
\<close>

theorem update_license_fills_placeholders:
  assumes "map_of (cwd w) ''LICENSE'' = Some (File body)"
  shows "update_license this_year name w
    = (Inr (),
       w\<lparr>cwd := AList.update ''LICENSE''
                  (File (license_spec (str_nat this_year) name body)) (cwd w),
         written := written w @ [(''LICENSE'', license_spec (str_nat this_year) name body)]\<rparr>)"
proof -
  from str_nat_digits [of this_year]
  have "replace ''<name>'' name (replace ''<year>'' (str_nat this_year) body)
      = license_spec (str_nat this_year) name body"
    by (intro two_passes) simp_all
  with update_license_run [OF assms, of this_year name] show ?thesis
    by simp
qed

theorem update_license_fills_placeholders_witness:
  "update_license 2024 ''Ada Lovelace''
     \<lparr>cwd = [(''LICENSE'', File ''MIT License (<year>). Copyright <name>. All rights reserved.''),
             (''README.md'', File ''<year> <name>'')],
      console = \<lparr>stdin = [], stdout = []\<rparr>,
      written = []\<rparr>
   = (Inr (),
      \<lparr>cwd = [(''LICENSE'', File ''MIT License (2024). Copyright Ada Lovelace. All rights reserved.''),
              (''README.md'', File ''<year> <name>'')],
       console = \<lparr>stdin = [], stdout = []\<rparr>,
       written = [(''LICENSE'', ''MIT License (2024). Copyright Ada Lovelace. All rights reserved.'')]\<rparr>)"
proof -
  have year: "str_nat 2024 = ''2024''"
    by code_simp
  have filled: "license_spec ''2024'' ''Ada Lovelace''
        ''MIT License (<year>). Copyright <name>. All rights reserved.''
      = ''MIT License (2024). Copyright Ada Lovelace. All rights reserved.''"
    by code_simp
  from update_license_fills_placeholders
    [of "\<lparr>cwd = [(''LICENSE'', File ''MIT License (<year>). Copyright <name>. All rights reserved.''),
             (''README.md'', File ''<year> <name>'')],
      console = \<lparr>stdin = [], stdout = []\<rparr>,
      written = []\<rparr>"
      "''MIT License (<year>). Copyright <name>. All rights reserved.''" 2024 "''Ada Lovelace''"]
  show ?thesis
    unfolding year filled by simp
qed

subsection \<open>The whole run\<close>

lemma say_world: "say s w = (Inr (), w\<lparr>console := print s (console w)\<rparr>)"
  by (simp add: say_def)

lemma main_finish_first_dir:
  assumes license: "map_of entries ''LICENSE'' = Some (File body)"
    and descriptor: "map_of entries ''pyproject.toml'' = Some (File template)"
    and first: "entries = (d, Dir sub) # others"
    and names: "d \<noteq> ''LICENSE''" "d \<noteq> ''pyproject.toml''"
  shows "main_finish env name project_name data \<lparr>cwd = entries, console = c, written = ws\<rparr>
    = (Inl RecursionError,
       \<lparr>cwd = AList.update ''pyproject.toml'' (File (toml_dumps env data))
                (AList.update ''LICENSE''
                   (File (replace ''<name>'' name (replace ''<year>'' (str_nat (year env)) body)))
                   entries),
        console = print ''Renaming project...''
                    (print ''Generating pyproject.toml...'' (print ''Updating license...'' c)),
        written = ws @ [(''LICENSE'', replace ''<name>'' name (replace ''<year>'' (str_nat (year env)) body)),
                        (''pyproject.toml'', toml_dumps env data)]\<rparr>)"
proof -
  let ?w1 = "\<lparr>cwd = entries, console = print ''Updating license...'' c, written = ws\<rparr>"
  let ?text = "replace ''<name>'' name (replace ''<year>'' (str_nat (year env)) body)"
  let ?w2 = "\<lparr>cwd = AList.update ''LICENSE'' (File ?text) entries,
              console = print ''Generating pyproject.toml...'' (print ''Updating license...'' c),
              written = ws @ [(''LICENSE'', ?text)]\<rparr>"
  let ?w3 = "\<lparr>cwd = AList.update ''pyproject.toml'' (File (toml_dumps env data))
                      (AList.update ''LICENSE'' (File ?text) entries),
              console = print ''Renaming project...''
                    (print ''Generating pyproject.toml...'' (print ''Updating license...'' c)),
              written = ws @ [(''LICENSE'', ?text), (''pyproject.toml'', toml_dumps env data)]\<rparr>"
  have lic: "update_license (year env) name ?w1
      = (Inr (), \<lparr>cwd = AList.update ''LICENSE'' (File ?text) entries,
                   console = print ''Updating license...'' c,
                   written = ws @ [(''LICENSE'', ?text)]\<rparr>)"
    using update_license_run [of ?w1 body "year env" name] license by simp
  have wr: "write_file ''pyproject.toml'' (toml_dumps env data) ?w2
      = (Inr (), \<lparr>cwd = AList.update ''pyproject.toml'' (File (toml_dumps env data))
                      (AList.update ''LICENSE'' (File ?text) entries),
                   console = print ''Generating pyproject.toml...'' (print ''Updating license...'' c),
                   written = ws @ [(''LICENSE'', ?text), (''pyproject.toml'', toml_dumps env data)]\<rparr>)"
    using descriptor by (simp add: write_file_def update_conv')
  have "listdir ?w3 = d # map fst (AList.update ''pyproject.toml'' (File (toml_dumps env data))
                                     (AList.update ''LICENSE'' (File ?text) others))"
    and "isdir d ?w3"
    using first names by (simp_all add: listdir_def isdir_def)
  then have rn: "rename_project (recursion_limit env) project_name ?w3 = (Inl RecursionError, ?w3)"
    by (rule rename_project_first_dir)
  show ?thesis
    by (simp add: main_finish_def and_then_def say_world lic wr rn)
qed

text \<open>
  Claim C3. The minimal descriptor, a license, the directory \<^verbatim>\<open>src/project_name\<close>, and the
  answers Ada, a@x.com, acme, demo, an empty line, \<^verbatim>\<open>y\<close> and four times \<^verbatim>\<open>no\<close>. The
  descriptor is written with the answers in it, as the claim says. Then \<open>rename_project\<close>
  meets \<^verbatim>\<open>src\<close>: whatever room the stack has, \<open>main\<close> ends with an uncaught
  \<^verbatim>\<open>RecursionError\<close>, line 157 is not reached and \<^verbatim>\<open>src/project_name\<close> keeps its name.
\<close>

theorem main_end_to_end_recursion_error:
  "fst (main
      \<lparr>toml_load = (\<lambda>text. Inr (Table
           [(''project'', Table
              [(''name'', Str ''project_name''),
               (''dependencies'', Arr []),
               (''optional-dependencies'',
                Table [(''dev'', Arr []), (''doc'', Arr []), (''test'', Arr [])])]),
            (''tool'', Table [(''setuptools'', Table [(''dynamic'', Str ''project_name.__version__'')])])])),
       toml_dumps = dumps, os_rename = rename, year = 2024, recursion_limit = limit,
       script_file = script\<rparr>
      \<lparr>cwd = [(''src'', Dir [(''project_name'', Dir [(''__init__.py'', File [])])]),
              (''LICENSE'', File ''Copyright (c) <year> <name>''),
              (''pyproject.toml'', File ''[project]'')],
       console = \<lparr>stdin = [Line ''Ada'', Line ''a@x.com'', Line ''acme'', Line ''demo'', Line [],
                             Line ''y'', Line ''no'', Line ''no'', Line ''no'', Line ''no''],
                    stdout = []\<rparr>,
       written = []\<rparr>)
   = Uncaught RecursionError
   \<and> cwd (snd (main
      \<lparr>toml_load = (\<lambda>text. Inr (Table
           [(''project'', Table
              [(''name'', Str ''project_name''),
               (''dependencies'', Arr []),
               (''optional-dependencies'',
                Table [(''dev'', Arr []), (''doc'', Arr []), (''test'', Arr [])])]),
            (''tool'', Table [(''setuptools'', Table [(''dynamic'', Str ''project_name.__version__'')])])])),
       toml_dumps = dumps, os_rename = rename, year = 2024, recursion_limit = limit,
       script_file = script\<rparr>
      \<lparr>cwd = [(''src'', Dir [(''project_name'', Dir [(''__init__.py'', File [])])]),
              (''LICENSE'', File ''Copyright (c) <year> <name>''),
              (''pyproject.toml'', File ''[project]'')],
       console = \<lparr>stdin = [Line ''Ada'', Line ''a@x.com'', Line ''acme'', Line ''demo'', Line [],
                             Line ''y'', Line ''no'', Line ''no'', Line ''no'', Line ''no''],
                    stdout = []\<rparr>,
       written = []\<rparr>))
   = [(''src'', Dir [(''project_name'', Dir [(''__init__.py'', File [])])]),
      (''LICENSE'', File ''Copyright (c) 2024 Ada''),
      (''pyproject.toml'', File (dumps (Table
           [(''project'', Table
              [(''name'', Str ''acme''),
               (''dependencies'', Arr []),
               (''optional-dependencies'',
                Table [(''dev'', Arr []), (''doc'', Arr []), (''test'', Arr [])]),
               (''authors'', Arr [Table [(''name'', Str ''Ada''), (''email'', Str ''a@x.com'')]]),
               (''description'', Str ''demo''),
               (''python'', Str ''>=3.10'')]),
            (''tool'', Table [(''setuptools'', Table [(''dynamic'', Str ''project_name.__version__'')])])])))]"
proof -
  let ?minimal = "Table
           [(''project'', Table
              [(''name'', Str ''project_name''),
               (''dependencies'', Arr []),
               (''optional-dependencies'',
                Table [(''dev'', Arr []), (''doc'', Arr []), (''test'', Arr [])])]),
            (''tool'', Table [(''setuptools'', Table [(''dynamic'', Str ''project_name.__version__'')])])]"
  let ?filled = "Table
           [(''project'', Table
              [(''name'', Str ''acme''),
               (''dependencies'', Arr []),
               (''optional-dependencies'',
                Table [(''dev'', Arr []), (''doc'', Arr []), (''test'', Arr [])]),
               (''authors'', Arr [Table [(''name'', Str ''Ada''), (''email'', Str ''a@x.com'')]]),
               (''description'', Str ''demo''),
               (''python'', Str ''>=3.10'')]),
            (''tool'', Table [(''setuptools'', Table [(''dynamic'', Str ''project_name.__version__'')])])]"
  let ?env = "\<lparr>toml_load = (\<lambda>text. Inr ?minimal),
       toml_dumps = dumps, os_rename = rename, year = 2024, recursion_limit = limit,
       script_file = script\<rparr>"
  let ?c = "\<lparr>stdin = [Line ''Ada'', Line ''a@x.com'', Line ''acme'', Line ''demo'', Line [],
                             Line ''y'', Line ''no'', Line ''no'', Line ''no'', Line ''no''],
                    stdout = []\<rparr>"
  let ?entries = "[(''src'', Dir [(''project_name'', Dir [(''__init__.py'', File [])])]),
              (''LICENSE'', File ''Copyright (c) <year> <name>''),
              (''pyproject.toml'', File ''[project]'')]"
  let ?w = "\<lparr>cwd = ?entries, console = ?c, written = []\<rparr>"
  have "fst (main_collect ?minimal ?c) = Inr (?filled, ''Ada'', ''acme'')"
    by code_simp
  then obtain c1 where collect: "main_collect ?minimal ?c = (Inr (?filled, ''Ada'', ''acme''), c1)"
    by (cases "main_collect ?minimal ?c") simp
  have load: "and_then (read_file ''pyproject.toml'') (\<lambda>text w'. (toml_load ?env text, w')) ?w
      = (Inr ?minimal, ?w)"
    by (simp add: and_then_def read_file_def)
  have questions: "on_console (main_collect ?minimal) ?w
      = (Inr (?filled, ''Ada'', ''acme''), \<lparr>cwd = ?entries, console = c1, written = []\<rparr>)"
    by (simp add: on_console_def collect)
  have year: "str_nat 2024 = ''2024''"
    by code_simp
  have finish: "main_finish ?env ''Ada'' ''acme'' ?filled \<lparr>cwd = ?entries, console = c1, written = []\<rparr>
      = (Inl RecursionError,
         \<lparr>cwd = [(''src'', Dir [(''project_name'', Dir [(''__init__.py'', File [])])]),
                 (''LICENSE'', File ''Copyright (c) 2024 Ada''),
                 (''pyproject.toml'', File (dumps ?filled))],
          console = print ''Renaming project...''
                    (print ''Generating pyproject.toml...'' (print ''Updating license...'' c1)),
          written = [(''LICENSE'', ''Copyright (c) 2024 Ada''), (''pyproject.toml'', dumps ?filled)]\<rparr>)"
    using main_finish_first_dir
      [of ?entries "''Copyright (c) <year> <name>''" "''[project]''" "''src''"
          "[(''project_name'', Dir [(''__init__.py'', File [])])]"
          "[(''LICENSE'', File ''Copyright (c) <year> <name>''), (''pyproject.toml'', File ''[project]'')]"
          ?env "''Ada''" "''acme''" ?filled c1 "[]"]
    by (simp add: year)
  show ?thesis
    unfolding main_def load
    by (simp add: and_then_def questions finish)
qed

lemma main_missing_descriptor:
  "map_of (cwd w) ''pyproject.toml'' = None \<Longrightarrow>
     main env w = (Exit 1, w\<lparr>console := print ''No pyproject.toml found, exiting.'' (console w)\<rparr>)"
  by (simp add: main_def and_then_def read_file_def say_def)

lemma main_loaded:
  assumes "map_of (cwd w) ''pyproject.toml'' = Some (File template)"
    and "toml_load env template = Inr data"
  shows "main env w =
     (case and_then (on_console (main_collect data))
             (\<lambda>(data, name, project_name). main_finish env name project_name data) w of
        (Inl e, w2) \<Rightarrow>
          if e = KeyboardInterrupt
          then (Exit 0, snd (say (CHR 0x0A # ''Exiting.'') w2))
          else (Uncaught e, w2)
      | (Inr data, w2) \<Rightarrow> (Completed, w2))"
  using assms by (simp add: main_def and_then_def read_file_def)

lemma ask_answers_interrupted:
  assumes "length answers \<le> 4" and "[] \<notin> set answers"
  shows "fst (ask_answers \<lparr>stdin = map Line answers @ Interrupt # rest, stdout = out\<rparr>)
         = Inl KeyboardInterrupt"
proof -
  from assms(1) have "answers = [] \<or> (\<exists>a. answers = [a]) \<or> (\<exists>a b. answers = [a, b])
      \<or> (\<exists>a b c. answers = [a, b, c]) \<or> (\<exists>a b c d. answers = [a, b, c, d])"
    by (auto simp: le_Suc_eq length_Suc_conv numeral_eq_Suc)
  with assms(2) show ?thesis
    by (auto simp: ask_answers_def and_then_def ask_Line ask_Interrupt input_Interrupt)
qed

lemma query_params_interrupted:
  assumes "length answers \<le> 4" and "[] \<notin> set answers"
  shows "fst (query_params v \<lparr>stdin = map Line answers @ Interrupt # rest, stdout = out\<rparr>)
         = Inl KeyboardInterrupt"
proof -
  let ?c = "\<lparr>stdin = map Line answers @ Interrupt # rest, stdout = out\<rparr>"
  obtain r c1 where a: "ask_answers ?c = (r, c1)" by (cases "ask_answers ?c")
  with ask_answers_interrupted [OF assms, of rest out] have "r = Inl KeyboardInterrupt" by simp
  with a show ?thesis by (simp add: query_params.simps [of v ?c])
qed

lemma main_collect_interrupted:
  assumes "stdin c = map Line answers @ Interrupt # rest"
    and "length answers \<le> 4" and "[] \<notin> set answers"
  shows "fst (main_collect data c) = Inl KeyboardInterrupt"
proof -
  let ?c = "print ''Please answer the following questions to help us get you set up.''
              (print ''Hi! Let's get started.'' c)"
  have "?c = \<lparr>stdin = map Line answers @ Interrupt # rest, stdout = stdout ?c\<rparr>"
    using assms(1) by (simp add: print_def)
  with query_params_interrupted [OF assms(2,3), of True rest "stdout ?c"]
  have "fst (query_params True ?c) = Inl KeyboardInterrupt" by simp
  then show ?thesis
    by (cases "query_params True ?c") (simp add: main_collect_def and_then_def)
qed

lemma main_interrupted:
  assumes "map_of (cwd w) ''pyproject.toml'' = Some (File template)"
    and "toml_load env template = Inr data"
    and "fst (main_collect data (console w)) = Inl KeyboardInterrupt"
  shows "fst (main env w) = Exit 0 \<and> cwd (snd (main env w)) = cwd w
         \<and> written (snd (main env w)) = written w"
proof -
  obtain c1 where "main_collect data (console w) = (Inl KeyboardInterrupt, c1)"
    using assms(3) by (cases "main_collect data (console w)") simp
  then show ?thesis
    by (simp add: main_loaded [OF assms(1,2)] and_then_def on_console_def say_def)
qed

lemma main_missing_license:
  assumes "map_of (cwd w) ''pyproject.toml'' = Some (File template)"
    and "toml_load env template = Inr data"
    and "fst (main_collect data (console w)) = Inr answers"
    and "map_of (cwd w) ''LICENSE'' = None"
  shows "fst (main env w) = Uncaught FileNotFoundError \<and> cwd (snd (main env w)) = cwd w
         \<and> written (snd (main env w)) = written w"
proof -
  obtain c1 where "main_collect data (console w) = (Inr answers, c1)"
    using assms(3) by (cases "main_collect data (console w)") simp
  with assms(4) show ?thesis
    by (cases answers)
       (simp add: main_loaded [OF assms(1,2)] and_then_def on_console_def main_finish_def
          say_def update_license_def read_file_def)
qed

lemma write_file_isdir:
  "write_file path body w = (Inr u, w') \<Longrightarrow> isdir p w' = isdir p w"
  by (auto simp: write_file_def isdir_def update_conv' split: option.splits node.splits if_splits)

lemma update_license_isdir:
  "update_license y name w = (Inr u, w') \<Longrightarrow> isdir p w' = isdir p w"
  by (auto simp: update_license_def and_then_def read_file_def
        split: option.splits node.splits dest: write_file_isdir)

lemma main_finish_never_returns:
  assumes "isdir p w"
  shows "fst (main_finish env name project_name data w) \<noteq> Inr data'"
proof
  assume finished: "fst (main_finish env name project_name data w) = Inr data'"
  let ?w1 = "w\<lparr>console := print ''Updating license...'' (console w)\<rparr>"
  obtain r2 w2 where lic: "update_license (year env) name ?w1 = (r2, w2)"
    by (cases "update_license (year env) name ?w1")
  show False
  proof (cases r2)
    case (Inl e)
    with finished lic show False
      by (simp add: main_finish_def and_then_def say_def)
  next
    case (Inr u)
    from assms have "isdir p ?w1" by (simp add: isdir_def)
    with update_license_isdir [of "year env" name ?w1 u w2 p] lic Inr have d2: "isdir p w2"
      by simp
    let ?w3 = "w2\<lparr>console := print ''Generating pyproject.toml...'' (console w2)\<rparr>"
    obtain r4 w4 where wr: "write_file ''pyproject.toml'' (toml_dumps env data) ?w3 = (r4, w4)"
      by (cases "write_file ''pyproject.toml'' (toml_dumps env data) ?w3")
    show False
    proof (cases r4)
      case (Inl e)
      with finished lic Inr wr show False
        by (simp add: main_finish_def and_then_def say_def)
    next
      case written: (Inr u')
      from d2 have "isdir p ?w3" by (simp add: isdir_def)
      with write_file_isdir [of "''pyproject.toml''" "toml_dumps env data" ?w3 u' w4 p] wr written
      have "isdir p w4" by simp
      then have d5: "isdir p (w4\<lparr>console := print ''Renaming project...'' (console w4)\<rparr>)"
        by (simp add: isdir_def)
      obtain r6 w6 where rn: "rename_project (recursion_limit env) project_name
          (w4\<lparr>console := print ''Renaming project...'' (console w4)\<rparr>) = (r6, w6)"
        by (cases "rename_project (recursion_limit env) project_name
          (w4\<lparr>console := print ''Renaming project...'' (console w4)\<rparr>)")
      with rename_project_dir [OF d5, of "recursion_limit env" project_name]
      have "r6 = Inl RecursionError" by simp
      with finished lic Inr wr written rn show False
        by (simp add: main_finish_def and_then_def say_def)
    qed
  qed
qed

lemma main_never_completes:
  assumes "isdir p w"
  shows "fst (main env w) \<noteq> Completed"
proof
  assume finished: "fst (main env w) = Completed"
  let ?load = "and_then (read_file ''pyproject.toml'') (\<lambda>text w'. (toml_load env text, w')) w"
  obtain r1 w1 where load: "?load = (r1, w1)" by (cases ?load)
  then have w1: "w1 = w"
    by (auto simp: and_then_def read_file_def split: option.splits node.splits)
  show False
  proof (cases r1)
    case (Inl e)
    with finished load show False by (simp add: main_def split: if_splits)
  next
    case (Inr data)
    obtain r2 c2 where col: "main_collect data (console w) = (r2, c2)"
      by (cases "main_collect data (console w)")
    show False
    proof (cases r2)
      case (Inl e)
      with finished load Inr w1 col show False
        by (simp add: main_def and_then_def on_console_def split: if_splits)
    next
      case answers: (Inr x)
      obtain data1 name project_name where x: "x = (data1, name, project_name)" by (cases x)
      from assms have dir: "isdir p (w\<lparr>console := c2\<rparr>)" by (simp add: isdir_def)
      obtain r3 w3 where fin: "main_finish env name project_name data1 (w\<lparr>console := c2\<rparr>) = (r3, w3)"
        by (cases "main_finish env name project_name data1 (w\<lparr>console := c2\<rparr>)")
      show False
      proof (cases r3)
        case (Inl e)
        with finished load Inr w1 col answers x fin show False
          by (simp add: main_def and_then_def on_console_def split: if_splits)
      next
        case returned: (Inr data')
        with main_finish_never_returns [OF dir, of env name project_name data1 data'] fin
        show False by simp
      qed
    qed
  qed
qed

text \<open>
  Claim C9. Without \<^verbatim>\<open>pyproject.toml\<close>, \<open>main\<close> prints its message and exits with
  status 1. Ctrl+C at any of the first five questions ends it with status 0 and no file
  touched. Without \<^verbatim>\<open>LICENSE\<close>, once the questions are answered, the
  \<^verbatim>\<open>FileNotFoundError\<close> is not caught. But \<open>main\<close> never returns normally from a
  working directory that holds a directory, as it must for \<^verbatim>\<open>src/project_name\<close> to
  exist: \<open>rename_project\<close> fails there.
\<close>

theorem main_exit_status:
  "(map_of (cwd w) ''pyproject.toml'' = None \<longrightarrow>
      main env w = (Exit 1, w\<lparr>console := print ''No pyproject.toml found, exiting.'' (console w)\<rparr>))
   \<and> (map_of (cwd w) ''pyproject.toml'' = Some (File template) \<longrightarrow>
      toml_load env template = Inr data \<longrightarrow>
      stdin (console w) = map Line answers @ Interrupt # rest \<longrightarrow>
      length answers \<le> 4 \<longrightarrow> [] \<notin> set answers \<longrightarrow>
        fst (main env w) = Exit 0 \<and> cwd (snd (main env w)) = cwd w
        \<and> written (snd (main env w)) = written w)
   \<and> (map_of (cwd w) ''pyproject.toml'' = Some (File template) \<longrightarrow>
      toml_load env template = Inr data \<longrightarrow>
      fst (main_collect data (console w)) = Inr collected \<longrightarrow>
      map_of (cwd w) ''LICENSE'' = None \<longrightarrow>
        fst (main env w) = Uncaught FileNotFoundError \<and> cwd (snd (main env w)) = cwd w
        \<and> written (snd (main env w)) = written w)
   \<and> (isdir p w \<longrightarrow> fst (main env w) \<noteq> Completed)"
proof (intro conjI impI)
  assume "map_of (cwd w) ''pyproject.toml'' = None"
  then show "main env w
      = (Exit 1, w\<lparr>console := print ''No pyproject.toml found, exiting.'' (console w)\<rparr>)"
    by (rule main_missing_descriptor)
next
  assume loaded: "map_of (cwd w) ''pyproject.toml'' = Some (File template)"
      "toml_load env template = Inr data"
    and "stdin (console w) = map Line answers @ Interrupt # rest"
      "length answers \<le> 4" "[] \<notin> set answers"
  then have "fst (main_collect data (console w)) = Inl KeyboardInterrupt"
    by (intro main_collect_interrupted)
  from main_interrupted [OF loaded this]
  show "fst (main env w) = Exit 0" "cwd (snd (main env w)) = cwd w"
    "written (snd (main env w)) = written w"
    by simp_all
next
  assume "map_of (cwd w) ''pyproject.toml'' = Some (File template)"
      "toml_load env template = Inr data"
      "fst (main_collect data (console w)) = Inr collected"
      "map_of (cwd w) ''LICENSE'' = None"
  from main_missing_license [OF this]
  show "fst (main env w) = Uncaught FileNotFoundError" "cwd (snd (main env w)) = cwd w"
    "written (snd (main env w)) = written w"
    by simp_all
next
  assume "isdir p w"
  then show "fst (main env w) \<noteq> Completed"
    by (rule main_never_completes)
qed

theorem main_exit_status_witness:
  "main \<lparr>toml_load = (\<lambda>text. Inr (Table [(''project'', Table [(''optional-dependencies'',
                          Table [(''dev'', Arr []), (''doc'', Arr []), (''test'', Arr [])])])])),
         toml_dumps = (\<lambda>d. ''[project]''), os_rename = (\<lambda>src dst entries. Inr entries),
         year = 2024, recursion_limit = 1000, script_file = ''init.py''\<rparr>
        \<lparr>cwd = [(''LICENSE'', File ''<year> <name>'')],
         console = \<lparr>stdin = [Line ''Ada''], stdout = []\<rparr>, written = []\<rparr>
     = (Exit 1,
        \<lparr>cwd = [(''LICENSE'', File ''<year> <name>'')],
         console = \<lparr>stdin = [Line ''Ada''],
                      stdout = [Printed ''No pyproject.toml found, exiting.'']\<rparr>,
         written = []\<rparr>)
   \<and> fst (main \<lparr>toml_load = (\<lambda>text. Inr (Table [(''project'', Table [(''optional-dependencies'',
                          Table [(''dev'', Arr []), (''doc'', Arr []), (''test'', Arr [])])])])),
         toml_dumps = (\<lambda>d. ''[project]''), os_rename = (\<lambda>src dst entries. Inr entries),
         year = 2024, recursion_limit = 1000, script_file = ''init.py''\<rparr>
        \<lparr>cwd = [(''pyproject.toml'', File ''[project]''), (''LICENSE'', File ''<year> <name>'')],
         console = \<lparr>stdin = [Line ''Ada'', Line ''a@x.com'', Interrupt, Line ''acme''], stdout = []\<rparr>,
         written = []\<rparr>)
     = Exit 0
   \<and> fst (main \<lparr>toml_load = (\<lambda>text. Inr (Table [(''project'', Table [(''optional-dependencies'',
                          Table [(''dev'', Arr []), (''doc'', Arr []), (''test'', Arr [])])])])),
         toml_dumps = (\<lambda>d. ''[project]''), os_rename = (\<lambda>src dst entries. Inr entries),
         year = 2024, recursion_limit = 1000, script_file = ''init.py''\<rparr>
        \<lparr>cwd = [(''pyproject.toml'', File ''[project]'')],
         console = \<lparr>stdin = [Line ''Ada'', Line ''a@x.com'', Line ''acme'', Line ''demo'', Line [],
                               Line ''y'', Line ''n'', Line ''n'', Line ''n'', Line ''n''],
                      stdout = []\<rparr>,
         written = []\<rparr>)
     = Uncaught FileNotFoundError
   \<and> fst (main \<lparr>toml_load = (\<lambda>text. Inr (Table [(''project'', Table [(''optional-dependencies'',
                          Table [(''dev'', Arr []), (''doc'', Arr []), (''test'', Arr [])])])])),
         toml_dumps = (\<lambda>d. ''[project]''), os_rename = (\<lambda>src dst entries. Inr entries),
         year = 2024, recursion_limit = 1000, script_file = ''init.py''\<rparr>
        \<lparr>cwd = [(''pyproject.toml'', File ''[project]''), (''LICENSE'', File ''<year> <name>''),
                (''src'', Dir [(''project_name'', Dir [])])],
         console = \<lparr>stdin = [Line ''Ada'', Line ''a@x.com'', Line ''acme'', Line ''demo'', Line [],
                               Line ''y'', Line ''n'', Line ''n'', Line ''n'', Line ''n''],
                      stdout = []\<rparr>,
         written = []\<rparr>)
     \<noteq> Completed"
proof -
  let ?data = "Table [(''project'', Table [(''optional-dependencies'',
                          Table [(''dev'', Arr []), (''doc'', Arr []), (''test'', Arr [])])])]"
  let ?env = "\<lparr>toml_load = (\<lambda>text. Inr ?data),
         toml_dumps = (\<lambda>d. ''[project]''), os_rename = (\<lambda>src dst entries. Inr entries),
         year = 2024, recursion_limit = 1000, script_file = ''init.py''\<rparr>"
  let ?answers = "\<lparr>stdin = [Line ''Ada'', Line ''a@x.com'', Line ''acme'', Line ''demo'', Line [],
                               Line ''y'', Line ''n'', Line ''n'', Line ''n'', Line ''n''],
                      stdout = []\<rparr>"
  let ?w1 = "\<lparr>cwd = [(''LICENSE'', File ''<year> <name>'')],
         console = \<lparr>stdin = [Line ''Ada''], stdout = []\<rparr>, written = []\<rparr>"
  let ?w2 = "\<lparr>cwd = [(''pyproject.toml'', File ''[project]''), (''LICENSE'', File ''<year> <name>'')],
         console = \<lparr>stdin = [Line ''Ada'', Line ''a@x.com'', Interrupt, Line ''acme''], stdout = []\<rparr>,
         written = []\<rparr>"
  let ?w3 = "\<lparr>cwd = [(''pyproject.toml'', File ''[project]'')], console = ?answers, written = []\<rparr>"
  let ?w4 = "\<lparr>cwd = [(''pyproject.toml'', File ''[project]''), (''LICENSE'', File ''<year> <name>''),
                (''src'', Dir [(''project_name'', Dir [])])],
         console = ?answers, written = []\<rparr>"
  have "main ?env ?w1
      = (Exit 1, ?w1\<lparr>console := print ''No pyproject.toml found, exiting.'' (console ?w1)\<rparr>)"
    using main_exit_status [where w = ?w1 and env = ?env] by simp
  then have missing: "main ?env ?w1
     = (Exit 1,
        \<lparr>cwd = [(''LICENSE'', File ''<year> <name>'')],
         console = \<lparr>stdin = [Line ''Ada''],
                      stdout = [Printed ''No pyproject.toml found, exiting.'']\<rparr>,
         written = []\<rparr>)"
    by (simp add: print_def)
  have "stdin (console ?w2) = map Line [''Ada'', ''a@x.com''] @ Interrupt # [Line ''acme'']"
    by simp
  with main_exit_status [where w = ?w2 and env = ?env and template = "''[project]''" and data = ?data
      and answers = "[''Ada'', ''a@x.com'']" and rest = "[Line ''acme'']"]
  have interrupted: "fst (main ?env ?w2) = Exit 0"
    by simp
  have "(case fst (main_collect ?data ?answers) of Inl e \<Rightarrow> False | Inr x \<Rightarrow> True)"
    by code_simp
  then obtain collected where "fst (main_collect ?data (console ?w3)) = Inr collected"
    by (auto split: sum.splits)
  with main_exit_status [where w = ?w3 and env = ?env and template = "''[project]''" and data = ?data
      and collected = collected]
  have no_license: "fst (main ?env ?w3) = Uncaught FileNotFoundError"
    by simp
  have "isdir ''src'' ?w4"
    by (simp add: isdir_def)
  with main_exit_status [where w = ?w4 and env = ?env and p = "''src''"]
  have never: "fst (main ?env ?w4) \<noteq> Completed"
    by blast
  from missing interrupted no_license never show ?thesis
    by (intro conjI)
qed

subsection \<open>The descriptor on disk and the late assignment\<close>

lemma setitem_project_frame:
  assumes "setitem d (''project'' # ks) v = Inr d'" and "k \<noteq> ''project''"
  shows "getitem d' (k # path) = getitem d (k # path)"
proof (cases d)
  case (Table t)
  show ?thesis
  proof (cases ks)
    case Nil
    with assms Table show ?thesis by (auto simp: update_conv')
  next
    case (Cons k' ks')
    with assms Table show ?thesis
      by (auto simp: update_conv' split: option.splits sum.splits)
  qed
qed (use assms in simp_all)

lemma assign_project_frame:
  assumes "assign (''project'' # ks) v d s = (Inr d', s')" and "k \<noteq> ''project''"
  shows "getitem d' (k # path) = getitem d (k # path)"
  using assms by (auto simp: assign_def dest: setitem_project_frame)

lemma main_collect_frame:
  assumes "main_collect data c = (Inr (data1, name, project_name), c')" and "k \<noteq> ''project''"
  shows "getitem data1 (k # path) = getitem data (k # path)"
  using assms
  by (auto simp: main_collect_def and_then_def return_def
      split: prod.splits sum.splits dest!: assign_project_frame [where k = k and path = path])

lemma write_file_written:
  "write_file path body w = (r, w') \<Longrightarrow> \<exists>more. written w' = written w @ more"
  by (auto simp: write_file_def split: option.splits node.splits)

lemma rename_entries_written:
  assumes IH: "\<And>name w r w'. rename_project depth name w = (r, w') \<Longrightarrow>
                 \<exists>more. written w' = written w @ more"
  shows "rename_entries depth name paths w = (r, w') \<Longrightarrow> \<exists>more. written w' = written w @ more"
proof (induction paths arbitrary: w)
  case Nil
  then show ?case by simp
next
  case (Cons path paths)
  show ?case
  proof (cases "isdir path w")
    case True
    obtain r1 w1 where c: "rename_project depth path w = (r1, w1)"
      by (cases "rename_project depth path w")
    from IH [OF c] obtain more where m: "written w1 = written w @ more" by blast
    show ?thesis
    proof (cases r1)
      case (Inl e)
      with True c Cons.prems m show ?thesis by auto
    next
      case (Inr u)
      with True c Cons.prems have "rename_entries depth name paths w1 = (r, w')" by simp
      from Cons.IH [OF this] m show ?thesis by auto
    qed
  next
    case False
    show ?thesis
    proof (cases "isfile path w")
      case True
      from rename_entries_file [OF False True, of depth name paths] obtain body where
        step: "rename_entries depth name (path # paths) w
          = rename_entries depth name paths
              (w\<lparr>cwd := AList.update path (File (replace ''project_name'' name body)) (cwd w),
                 written := written w @ [(path, replace ''project_name'' name body)]\<rparr>)"
        by blast
      with Cons.prems Cons.IH [of "w\<lparr>cwd := AList.update path (File (replace ''project_name'' name body)) (cwd w),
                 written := written w @ [(path, replace ''project_name'' name body)]\<rparr>"]
      show ?thesis by auto
    next
      case neither: False
      with False Cons.prems Cons.IH [of w] show ?thesis by simp
    qed
  qed
qed

lemma rename_project_written:
  "rename_project depth name w = (r, w') \<Longrightarrow> \<exists>more. written w' = written w @ more"
proof (induction depth arbitrary: name w r w')
  case 0
  then show ?case by simp
next
  case (Suc depth)
  from Suc.prems have "rename_entries depth name (listdir w) w = (r, w')" by simp
  from rename_entries_written [of depth, OF Suc.IH this] show ?case .
qed

lemma and_then_written:
  assumes "and_then m f w = (r, w')"
    and "\<And>r1 w1. m w = (r1, w1) \<Longrightarrow> \<exists>more. written w1 = written w @ more"
    and "\<And>x w1 r2 w2. f x w1 = (r2, w2) \<Longrightarrow> \<exists>more. written w2 = written w1 @ more"
  shows "\<exists>more. written w' = written w @ more"
proof -
  obtain r1 w1 where m: "m w = (r1, w1)" by (cases "m w")
  from assms(2) [OF m] obtain more1 where w1: "written w1 = written w @ more1" by blast
  show ?thesis
  proof (cases r1)
    case (Inl e)
    with m assms(1) w1 show ?thesis by (auto simp: and_then_def)
  next
    case (Inr x)
    with m assms(1) have "f x w1 = (r, w')" by (simp add: and_then_def)
    from assms(3) [OF this] w1 show ?thesis by auto
  qed
qed

lemma say_written: "say s w = (r, w') \<Longrightarrow> \<exists>more. written w' = written w @ more"
  by (auto simp: say_def)

lemma rename_path_written: "rename_path env src dst w = (r, w') \<Longrightarrow> \<exists>more. written w' = written w @ more"
  by (auto simp: rename_path_def split: sum.splits)

lemma assign_written: "assign path v data w = (r, w') \<Longrightarrow> \<exists>more. written w' = written w @ more"
  by (auto simp: assign_def)

lemma main_finish_tail_written:
  assumes "and_then (say ''Renaming project...'')
       (\<lambda>u.
     and_then (rename_project (recursion_limit env) project_name)
       (\<lambda>u.
     and_then (rename_path env ''src/project_name'' (''src/'' @ project_name))
       (\<lambda>u.
     and_then (assign [''tool'', ''setuptools'', ''dynamic'']
                 (Str (project_name @ ''.__version__'')) data)
       (\<lambda>data.
     and_then (say ''Your project is ready! Deleting myself from existence, farewell!'')
       (\<lambda>u.
     and_then (say (script_file env))
       (\<lambda>u. return data)))))) w = (r, w')"
  shows "\<exists>more. written w' = written w @ more"
  using assms
  apply (rule and_then_written)
   apply (erule say_written)
  apply (erule and_then_written)
   apply (erule rename_project_written)
  apply (erule and_then_written)
   apply (erule rename_path_written)
  apply (erule and_then_written)
   apply (erule assign_written)
  apply (erule and_then_written)
   apply (erule say_written)
  apply (erule and_then_written)
   apply (erule say_written)
  apply (simp add: return_def)
  done

lemma update_license_written:
  "update_license y name w = (r, w') \<Longrightarrow>
     (\<exists>e. r = Inl e \<and> written w' = written w)
     \<or> (\<exists>body. r = Inr () \<and> written w' = written w @ [(''LICENSE'', body)])"
  by (auto simp: update_license_def and_then_def read_file_def write_file_def
        split: option.splits node.splits)

lemma write_descriptor_written:
  "write_file ''pyproject.toml'' body w = (r, w') \<Longrightarrow>
     (\<exists>e. r = Inl e \<and> written w' = written w)
     \<or> (r = Inr () \<and> written w' = written w @ [(''pyproject.toml'', body)])"
  by (auto simp: write_file_def split: option.splits node.splits)

lemma main_finish_first_write:
  assumes "map_of (drop (length (written w)) (written (snd (main_finish env name project_name data w))))
             ''pyproject.toml'' = Some s"
  shows "s = toml_dumps env data"
proof -
  define tail where "tail = and_then (say ''Renaming project...'')
       (\<lambda>u.
     and_then (rename_project (recursion_limit env) project_name)
       (\<lambda>u.
     and_then (rename_path env ''src/project_name'' (''src/'' @ project_name))
       (\<lambda>u.
     and_then (assign [''tool'', ''setuptools'', ''dynamic'']
                 (Str (project_name @ ''.__version__'')) data)
       (\<lambda>data.
     and_then (say ''Your project is ready! Deleting myself from existence, farewell!'')
       (\<lambda>u.
     and_then (say (script_file env))
       (\<lambda>u. return data))))))"
  have chain: "main_finish env name project_name data =
     and_then (say ''Updating license...'')
       (\<lambda>u.
     and_then (update_license (year env) name)
       (\<lambda>u.
     and_then (say ''Generating pyproject.toml...'')
       (\<lambda>u.
     and_then (write_file ''pyproject.toml'' (toml_dumps env data))
       (\<lambda>u. tail))))"
    unfolding main_finish_def tail_def by (rule refl)
  let ?w1 = "w\<lparr>console := print ''Updating license...'' (console w)\<rparr>"
  obtain r2 w2 where lic: "update_license (year env) name ?w1 = (r2, w2)"
    by (cases "update_license (year env) name ?w1")
  let ?w3 = "w2\<lparr>console := print ''Generating pyproject.toml...'' (console w2)\<rparr>"
  obtain r4 w4 where wr: "write_file ''pyproject.toml'' (toml_dumps env data) ?w3 = (r4, w4)"
    by (cases "write_file ''pyproject.toml'' (toml_dumps env data) ?w3")
  obtain r5 w5 where tail: "tail w4 = (r5, w5)"
    by (cases "tail w4")
  have run: "main_finish env name project_name data w =
      (case r2 of Inl e \<Rightarrow> (Inl e, w2)
       | Inr u \<Rightarrow> (case r4 of Inl e \<Rightarrow> (Inl e, w4) | Inr u' \<Rightarrow> (r5, w5)))"
    unfolding chain
    by (simp add: and_then_def say_def lic wr tail split: sum.splits)
  from tail have grown: "\<exists>more. written w5 = written w4 @ more"
    unfolding tail_def by (rule main_finish_tail_written)
  from update_license_written [OF lic]
  consider (failed) e where "r2 = Inl e" "written w2 = written w"
    | (filled) body where "r2 = Inr ()" "written w2 = written w @ [(''LICENSE'', body)]"
    by auto
  then show ?thesis
  proof cases
    case failed
    with run assms show ?thesis by simp
  next
    case filled
    from write_descriptor_written [OF wr]
    consider (refused) e where "r4 = Inl e" "written w4 = written ?w3"
      | (stored) "r4 = Inr ()" "written w4 = written ?w3 @ [(''pyproject.toml'', toml_dumps env data)]"
      by auto
    then show ?thesis
    proof cases
      case refused
      with run filled assms show ?thesis by simp
    next
      case stored
      from grown obtain more where "written w5 = written w4 @ more"
        by blast
      with run filled stored assms show ?thesis by simp
    qed
  qed
qed

lemma rename_project_file_then_dir_fixed:
  assumes "listdir w = f # d # ps" and "map_of (cwd w) f = Some (File body)" and "isdir d w"
    and "replace ''project_name'' d body = body"
  shows "cwd (snd (rename_project depth d w)) = cwd w"
  using assms
proof (induction depth arbitrary: w)
  case 0
  then show ?case by simp
next
  case (Suc depth)
  from Suc.prems(2) have regular: "\<not> isdir f w" "isfile f w"
    by (simp_all add: isdir_def isfile_def)
  from rename_entries_file [OF regular, of depth d "d # ps"] Suc.prems(2,4)
  have step: "rename_entries depth d (f # d # ps) w
      = rename_entries depth d (d # ps)
          (w\<lparr>cwd := AList.update f (File body) (cwd w), written := written w @ [(f, body)]\<rparr>)"
    by auto
  let ?w = "w\<lparr>cwd := cwd w, written := written w @ [(f, body)]\<rparr>"
  have same: "AList.update f (File body) (cwd w) = cwd w"
    using Suc.prems(2) by (rule update_triv)
  have w: "listdir ?w = f # d # ps" "map_of (cwd ?w) f = Some (File body)" "isdir d ?w"
    using Suc.prems by (simp_all add: listdir_def isdir_def)
  obtain r w' where nested: "rename_project depth d ?w = (r, w')"
    by (cases "rename_project depth d ?w")
  with rename_project_dir [OF w(3), of depth d] have "r = Inl RecursionError" by simp
  with nested w(3) have "rename_entries depth d (d # ps) ?w = (Inl RecursionError, w')"
    by simp
  moreover from Suc.IH [OF w Suc.prems(4)] nested have "cwd w' = cwd w" by simp
  ultimately show ?case
    using Suc.prems(1) step same by simp
qed

lemma rename_project_file_then_dir:
  assumes "listdir w = f # d # ps" and "map_of (cwd w) f = Some (File body)" and "isdir d w"
    and "replace ''project_name'' d (replace ''project_name'' name body)
         = replace ''project_name'' name body"
  shows "cwd (snd (rename_project (Suc depth) name w))
         = AList.update f (File (replace ''project_name'' name body)) (cwd w)"
proof -
  from assms(2) have regular: "\<not> isdir f w" "isfile f w"
    by (simp_all add: isdir_def isfile_def)
  let ?body = "replace ''project_name'' name body"
  let ?w = "w\<lparr>cwd := AList.update f (File ?body) (cwd w), written := written w @ [(f, ?body)]\<rparr>"
  from rename_entries_file [OF regular, of depth name "d # ps"] assms(2)
  have step: "rename_entries depth name (f # d # ps) w = rename_entries depth name (d # ps) ?w"
    by auto
  have w: "listdir ?w = f # d # ps" "map_of (cwd ?w) f = Some (File ?body)" "isdir d ?w"
    using assms(1,3) listdir_rewritten [OF regular(2)] isdir_rewritten [OF regular(1)]
    by (simp_all add: update_conv')
  obtain r w' where nested: "rename_project depth d ?w = (r, w')"
    by (cases "rename_project depth d ?w")
  with rename_project_dir [OF w(3), of depth d] have "r = Inl RecursionError" by simp
  with nested w(3) have "rename_entries depth name (d # ps) ?w = (Inl RecursionError, w')"
    by simp
  moreover from rename_project_file_then_dir_fixed [OF w assms(4), of depth] nested
  have "cwd w' = cwd ?w" by simp
  ultimately show ?thesis
    using assms(1) step by simp
qed

lemma main_written:
  assumes "map_of (cwd w) ''pyproject.toml'' = Some (File template)"
    and "toml_load env template = Inr data"
    and "main_collect data (console w) = (Inr (data1, name, project_name), c)"
  shows "written (snd (main env w))
         = written (snd (main_finish env name project_name data1 (w\<lparr>console := c\<rparr>)))"
    and "cwd (snd (main env w))
         = cwd (snd (main_finish env name project_name data1 (w\<lparr>console := c\<rparr>)))"
  by (cases "main_finish env name project_name data1 (w\<lparr>console := c\<rparr>)";
      simp add: main_loaded [OF assms(1,2)] and_then_def on_console_def assms(3) say_def
        split: sum.splits)+

text \<open>
  Claim C10, as amended. The assignment to \<^verbatim>\<open>data["tool"]["setuptools"]["dynamic"]\<close> comes
  after the descriptor is serialised and written, so it has no part in what is written:
  in every run, the first text \<open>main\<close> writes to \<^verbatim>\<open>pyproject.toml\<close> is the serialisation
  of the descriptor as the questions left it, and the dynamic-versioning entry of that
  descriptor is the one that was loaded. (That the file never holds the new value does
  not follow: the walk of \<open>rename_project\<close> may put it there, see below.)
\<close>

theorem descriptor_written_before_dynamic_assignment:
  assumes "map_of (drop (length (written w)) (written (snd (main env w)))) ''pyproject.toml'' = Some s"
  shows "\<exists>template data data1 name project_name c.
           map_of (cwd w) ''pyproject.toml'' = Some (File template)
         \<and> toml_load env template = Inr data
         \<and> main_collect data (console w) = (Inr (data1, name, project_name), c)
         \<and> s = toml_dumps env data1
         \<and> getitem data1 [''tool'', ''setuptools'', ''dynamic'']
             = getitem data [''tool'', ''setuptools'', ''dynamic'']"
proof -
  have unchanged: "written (snd (main env w)) = written w \<Longrightarrow> False"
    using assms by simp
  obtain template where template: "map_of (cwd w) ''pyproject.toml'' = Some (File template)"
  proof (cases "map_of (cwd w) ''pyproject.toml''")
    case None
    then have "written (snd (main env w)) = written w"
      by (simp add: main_missing_descriptor)
    with unchanged show ?thesis by simp
  next
    case (Some node)
    show ?thesis
    proof (cases node)
      case (File template)
      with Some that show ?thesis by simp
    next
      case (Dir entries)
      with Some have "written (snd (main env w)) = written w"
        by (simp add: main_def and_then_def read_file_def)
      with unchanged show ?thesis by simp
    next
      case Other
      with Some have "written (snd (main env w)) = written w"
        by (simp add: main_def and_then_def read_file_def)
      with unchanged show ?thesis by simp
    qed
  qed
  obtain data where data: "toml_load env template = Inr data"
  proof (cases "toml_load env template")
    case (Inl e)
    with template have "written (snd (main env w)) = written w"
      by (simp add: main_def and_then_def read_file_def say_def)
    with unchanged show ?thesis by simp
  next
    case (Inr data)
    with that show ?thesis by simp
  qed
  obtain r c where collect: "main_collect data (console w) = (r, c)"
    by (cases "main_collect data (console w)")
  obtain data1 name project_name where answers: "r = Inr (data1, name, project_name)"
  proof (cases r)
    case (Inl e)
    with collect have "written (snd (main env w)) = written w"
      by (simp add: main_loaded [OF template data] and_then_def on_console_def say_def)
    with unchanged show ?thesis by simp
  next
    case (Inr x)
    with that show ?thesis by (cases x) simp
  qed
  let ?w = "w\<lparr>console := c\<rparr>"
  from main_written(1) [OF template data collect [unfolded answers]] assms
  have "map_of (drop (length (written ?w))
                  (written (snd (main_finish env name project_name data1 ?w))))
          ''pyproject.toml'' = Some s"
    by simp
  then have "s = toml_dumps env data1"
    by (rule main_finish_first_write)
  moreover have "getitem data1 [''tool'', ''setuptools'', ''dynamic'']
      = getitem data [''tool'', ''setuptools'', ''dynamic'']"
    using collect [unfolded answers] by (rule main_collect_frame) simp
  ultimately show ?thesis
    using template data collect answers by blast
qed

lemma main_finish_descriptor_first:
  assumes first: "entries = (''pyproject.toml'', File template) # (d, Dir sub) # others"
    and license: "map_of others ''LICENSE'' = Some (File body)"
    and names: "d \<noteq> ''LICENSE''" "d \<noteq> ''pyproject.toml''"
    and room: "recursion_limit env = Suc depth"
    and stable: "replace ''project_name'' d (replace ''project_name'' project_name (toml_dumps env data))
                 = replace ''project_name'' project_name (toml_dumps env data)"
  shows "fst (main_finish env name project_name data \<lparr>cwd = entries, console = c, written = ws\<rparr>)
         = Inl RecursionError"
    and "cwd (snd (main_finish env name project_name data \<lparr>cwd = entries, console = c, written = ws\<rparr>))
         = (''pyproject.toml'', File (replace ''project_name'' project_name (toml_dumps env data)))
           # (d, Dir sub)
           # AList.update ''LICENSE''
               (File (replace ''<name>'' name (replace ''<year>'' (str_nat (year env)) body))) others"
    and "\<exists>more. written (snd (main_finish env name project_name data
                                  \<lparr>cwd = entries, console = c, written = ws\<rparr>))
         = ws @ [(''LICENSE'', replace ''<name>'' name (replace ''<year>'' (str_nat (year env)) body)),
                 (''pyproject.toml'', toml_dumps env data)] @ more"
proof -
  let ?w1 = "\<lparr>cwd = entries, console = print ''Updating license...'' c, written = ws\<rparr>"
  let ?text = "replace ''<name>'' name (replace ''<year>'' (str_nat (year env)) body)"
  let ?filled = "(''pyproject.toml'', File template) # (d, Dir sub)
                 # AList.update ''LICENSE'' (File ?text) others"
  let ?w2 = "\<lparr>cwd = ?filled,
              console = print ''Generating pyproject.toml...'' (print ''Updating license...'' c),
              written = ws @ [(''LICENSE'', ?text)]\<rparr>"
  let ?stored = "(''pyproject.toml'', File (toml_dumps env data)) # (d, Dir sub)
                 # AList.update ''LICENSE'' (File ?text) others"
  let ?w3 = "\<lparr>cwd = ?stored,
              console = print ''Renaming project...''
                    (print ''Generating pyproject.toml...'' (print ''Updating license...'' c)),
              written = ws @ [(''LICENSE'', ?text), (''pyproject.toml'', toml_dumps env data)]\<rparr>"
  have "map_of (cwd ?w1) ''LICENSE'' = Some (File body)"
    using first license names by simp
  from update_license_run [OF this, of "year env" name]
  have lic: "update_license (year env) name ?w1
      = (Inr (), \<lparr>cwd = ?filled, console = print ''Updating license...'' c,
                   written = ws @ [(''LICENSE'', ?text)]\<rparr>)"
    using first names by simp
  have wr: "write_file ''pyproject.toml'' (toml_dumps env data) ?w2
      = (Inr (), \<lparr>cwd = ?stored,
                   console = print ''Generating pyproject.toml...'' (print ''Updating license...'' c),
                   written = ws @ [(''LICENSE'', ?text), (''pyproject.toml'', toml_dumps env data)]\<rparr>)"
    by (simp add: write_file_def)
  obtain r w' where rn: "rename_project (recursion_limit env) project_name ?w3 = (r, w')"
    by (cases "rename_project (recursion_limit env) project_name ?w3")
  have w3: "listdir ?w3 = ''pyproject.toml'' # d
              # map fst (AList.update ''LICENSE'' (File ?text) others)"
      "map_of (cwd ?w3) ''pyproject.toml'' = Some (File (toml_dumps env data))"
      "isdir d ?w3"
    using names by (simp_all add: listdir_def isdir_def)
  from rename_project_dir [OF w3(3), of "recursion_limit env" project_name] rn
  have r: "r = Inl RecursionError" by simp
  from rename_project_file_then_dir [OF w3 stable, of depth] rn room
  have cwd': "cwd w' = (''pyproject.toml'', File (replace ''project_name'' project_name (toml_dumps env data)))
           # (d, Dir sub) # AList.update ''LICENSE'' (File ?text) others"
    by simp
  from rename_project_written [OF rn]
  obtain more where written': "written w'
      = ws @ [(''LICENSE'', ?text), (''pyproject.toml'', toml_dumps env data)] @ more"
    by auto
  have run: "main_finish env name project_name data \<lparr>cwd = entries, console = c, written = ws\<rparr>
      = (Inl RecursionError, w')"
    by (simp add: main_finish_def and_then_def say_world lic wr rn r)
  show "fst (main_finish env name project_name data \<lparr>cwd = entries, console = c, written = ws\<rparr>)
         = Inl RecursionError"
    by (simp add: run)
  show "cwd (snd (main_finish env name project_name data \<lparr>cwd = entries, console = c, written = ws\<rparr>))
         = (''pyproject.toml'', File (replace ''project_name'' project_name (toml_dumps env data)))
           # (d, Dir sub)
           # AList.update ''LICENSE'' (File ?text) others"
    by (simp add: run cwd')
  show "\<exists>more. written (snd (main_finish env name project_name data
                                  \<lparr>cwd = entries, console = c, written = ws\<rparr>))
         = ws @ [(''LICENSE'', ?text), (''pyproject.toml'', toml_dumps env data)] @ more"
    using written' by (simp add: run)
qed

lemma descriptor_run:
  "cwd (snd (main
       \<lparr>toml_load = (\<lambda>text. Inr (Table
          [(''project'', Table [(''optional-dependencies'',
              Table [(''dev'', Arr []), (''doc'', Arr []), (''test'', Arr [])])]),
           (''tool'', Table [(''setuptools'', Table [(''dynamic'', Str ''project_name.__version__'')])])])),
        toml_dumps = (\<lambda>d. case getitem d [''tool'', ''setuptools'', ''dynamic''] of
                            Inr (Str v) \<Rightarrow> ''dynamic = '' @ v | _ \<Rightarrow> []),
        os_rename = (\<lambda>src dst entries. Inr entries),
        year = 2024, recursion_limit = 1000, script_file = ''init.py''\<rparr>
       \<lparr>cwd = [(''pyproject.toml'', File ''[project]''),
               (''src'', Dir [(''project_name'', Dir [])]),
               (''LICENSE'', File ''<year> <name>'')],
        console = \<lparr>stdin = [Line ''Ada'', Line ''a@x.com'', Line ''acme'', Line ''demo'', Line [],
                              Line ''y'', Line ''n'', Line ''n'', Line ''n'', Line ''n''],
                     stdout = []\<rparr>,
        written = []\<rparr>))
   = [(''pyproject.toml'', File ''dynamic = acme.__version__''),
      (''src'', Dir [(''project_name'', Dir [])]),
      (''LICENSE'', File ''2024 Ada'')]"
  "\<exists>more. written (snd (main
       \<lparr>toml_load = (\<lambda>text. Inr (Table
          [(''project'', Table [(''optional-dependencies'',
              Table [(''dev'', Arr []), (''doc'', Arr []), (''test'', Arr [])])]),
           (''tool'', Table [(''setuptools'', Table [(''dynamic'', Str ''project_name.__version__'')])])])),
        toml_dumps = (\<lambda>d. case getitem d [''tool'', ''setuptools'', ''dynamic''] of
                            Inr (Str v) \<Rightarrow> ''dynamic = '' @ v | _ \<Rightarrow> []),
        os_rename = (\<lambda>src dst entries. Inr entries),
        year = 2024, recursion_limit = 1000, script_file = ''init.py''\<rparr>
       \<lparr>cwd = [(''pyproject.toml'', File ''[project]''),
               (''src'', Dir [(''project_name'', Dir [])]),
               (''LICENSE'', File ''<year> <name>'')],
        console = \<lparr>stdin = [Line ''Ada'', Line ''a@x.com'', Line ''acme'', Line ''demo'', Line [],
                              Line ''y'', Line ''n'', Line ''n'', Line ''n'', Line ''n''],
                     stdout = []\<rparr>,
        written = []\<rparr>))
   = [(''LICENSE'', ''2024 Ada''), (''pyproject.toml'', ''dynamic = project_name.__version__'')] @ more"
proof -
  let ?data = "Table
          [(''project'', Table [(''optional-dependencies'',
              Table [(''dev'', Arr []), (''doc'', Arr []), (''test'', Arr [])])]),
           (''tool'', Table [(''setuptools'', Table [(''dynamic'', Str ''project_name.__version__'')])])]"
  let ?data1 = "Table
          [(''project'', Table
             [(''optional-dependencies'',
               Table [(''dev'', Arr []), (''doc'', Arr []), (''test'', Arr [])]),
              (''authors'', Arr [Table [(''name'', Str ''Ada''), (''email'', Str ''a@x.com'')]]),
              (''name'', Str ''acme''), (''description'', Str ''demo''),
              (''python'', Str ''>=3.10''), (''dependencies'', Arr [])]),
           (''tool'', Table [(''setuptools'', Table [(''dynamic'', Str ''project_name.__version__'')])])]"
  let ?env = "\<lparr>toml_load = (\<lambda>text. Inr (Table
          [(''project'', Table [(''optional-dependencies'',
              Table [(''dev'', Arr []), (''doc'', Arr []), (''test'', Arr [])])]),
           (''tool'', Table [(''setuptools'', Table [(''dynamic'', Str ''project_name.__version__'')])])])),
        toml_dumps = (\<lambda>d. case getitem d [''tool'', ''setuptools'', ''dynamic''] of
                            Inr (Str v) \<Rightarrow> ''dynamic = '' @ v | _ \<Rightarrow> []),
        os_rename = (\<lambda>src dst entries. Inr entries),
        year = 2024, recursion_limit = 1000, script_file = ''init.py''\<rparr>"
  let ?c = "\<lparr>stdin = [Line ''Ada'', Line ''a@x.com'', Line ''acme'', Line ''demo'', Line [],
                              Line ''y'', Line ''n'', Line ''n'', Line ''n'', Line ''n''],
                     stdout = []\<rparr>"
  let ?entries = "[(''pyproject.toml'', File ''[project]''),
               (''src'', Dir [(''project_name'', Dir [])]),
               (''LICENSE'', File ''<year> <name>'')]"
  let ?w = "\<lparr>cwd = ?entries, console = ?c, written = []\<rparr>"
  have "fst (main_collect ?data ?c) = Inr (?data1, ''Ada'', ''acme'')"
    by code_simp
  then obtain c1 where collect: "main_collect ?data (console ?w) = (Inr (?data1, ''Ada'', ''acme''), c1)"
    by (cases "main_collect ?data ?c") simp
  have template: "map_of (cwd ?w) ''pyproject.toml'' = Some (File ''[project]'')"
    and load: "toml_load ?env ''[project]'' = Inr ?data"
    by simp_all
  note run = main_written [OF template load collect]
  have w1: "?w\<lparr>console := c1\<rparr> = \<lparr>cwd = ?entries, console = c1, written = []\<rparr>"
    by simp
  have dumped: "toml_dumps ?env ?data1 = ''dynamic = project_name.__version__''"
    by simp
  have stable: "replace ''project_name'' ''src'' (replace ''project_name'' ''acme'' (toml_dumps ?env ?data1))
      = replace ''project_name'' ''acme'' (toml_dumps ?env ?data1)"
    unfolding dumped by code_simp
  have renamed: "replace ''project_name'' ''acme'' ''dynamic = project_name.__version__''
      = ''dynamic = acme.__version__''"
    by code_simp
  have license: "str_nat 2024 = ''2024''"
    by code_simp
  have room: "recursion_limit ?env = Suc 999"
    by simp
  note fin = main_finish_descriptor_first
    [of ?entries "''[project]''" "''src''" "[(''project_name'', Dir [])]"
        "[(''LICENSE'', File ''<year> <name>'')]" "''<year> <name>''" ?env 999 "''acme''" ?data1
        "''Ada''" c1 "[]", OF refl _ _ _ room stable, simplified]
  from fin(2) show "cwd (snd (main
       \<lparr>toml_load = (\<lambda>text. Inr (Table
          [(''project'', Table [(''optional-dependencies'',
              Table [(''dev'', Arr []), (''doc'', Arr []), (''test'', Arr [])])]),
           (''tool'', Table [(''setuptools'', Table [(''dynamic'', Str ''project_name.__version__'')])])])),
        toml_dumps = (\<lambda>d. case getitem d [''tool'', ''setuptools'', ''dynamic''] of
                            Inr (Str v) \<Rightarrow> ''dynamic = '' @ v | _ \<Rightarrow> []),
        os_rename = (\<lambda>src dst entries. Inr entries),
        year = 2024, recursion_limit = 1000, script_file = ''init.py''\<rparr>
       \<lparr>cwd = [(''pyproject.toml'', File ''[project]''),
               (''src'', Dir [(''project_name'', Dir [])]),
               (''LICENSE'', File ''<year> <name>'')],
        console = \<lparr>stdin = [Line ''Ada'', Line ''a@x.com'', Line ''acme'', Line ''demo'', Line [],
                              Line ''y'', Line ''n'', Line ''n'', Line ''n'', Line ''n''],
                     stdout = []\<rparr>,
        written = []\<rparr>))
   = [(''pyproject.toml'', File ''dynamic = acme.__version__''),
      (''src'', Dir [(''project_name'', Dir [])]),
      (''LICENSE'', File ''2024 Ada'')]"
    unfolding run(2) w1 by (simp add: renamed license)
  from fin(3) show "\<exists>more. written (snd (main
       \<lparr>toml_load = (\<lambda>text. Inr (Table
          [(''project'', Table [(''optional-dependencies'',
              Table [(''dev'', Arr []), (''doc'', Arr []), (''test'', Arr [])])]),
           (''tool'', Table [(''setuptools'', Table [(''dynamic'', Str ''project_name.__version__'')])])])),
        toml_dumps = (\<lambda>d. case getitem d [''tool'', ''setuptools'', ''dynamic''] of
                            Inr (Str v) \<Rightarrow> ''dynamic = '' @ v | _ \<Rightarrow> []),
        os_rename = (\<lambda>src dst entries. Inr entries),
        year = 2024, recursion_limit = 1000, script_file = ''init.py''\<rparr>
       \<lparr>cwd = [(''pyproject.toml'', File ''[project]''),
               (''src'', Dir [(''project_name'', Dir [])]),
               (''LICENSE'', File ''<year> <name>'')],
        console = \<lparr>stdin = [Line ''Ada'', Line ''a@x.com'', Line ''acme'', Line ''demo'', Line [],
                              Line ''y'', Line ''n'', Line ''n'', Line ''n'', Line ''n''],
                     stdout = []\<rparr>,
        written = []\<rparr>))
   = [(''LICENSE'', ''2024 Ada''), (''pyproject.toml'', ''dynamic = project_name.__version__'')] @ more"
    unfolding run(1) w1 by (simp add: license)
qed

text \<open>
  A run against the claim as it was stated: the template's entry is
  \<^verbatim>\<open>project_name.__version__\<close> and \<^verbatim>\<open>pyproject.toml\<close> is listed before \<^verbatim>\<open>src\<close>. The text
  written at line 152 holds the loaded entry; the walk then replaces the placeholder in
  it, and the file ends with \<^verbatim>\<open>acme.__version__\<close>, the very value of the late assignment.
\<close>

theorem written_descriptor_holds_new_value:
  "map_of (cwd (snd (main
       \<lparr>toml_load = (\<lambda>text. Inr (Table
          [(''project'', Table [(''optional-dependencies'',
              Table [(''dev'', Arr []), (''doc'', Arr []), (''test'', Arr [])])]),
           (''tool'', Table [(''setuptools'', Table [(''dynamic'', Str ''project_name.__version__'')])])])),
        toml_dumps = (\<lambda>d. case getitem d [''tool'', ''setuptools'', ''dynamic''] of
                            Inr (Str v) \<Rightarrow> ''dynamic = '' @ v | _ \<Rightarrow> []),
        os_rename = (\<lambda>src dst entries. Inr entries),
        year = 2024, recursion_limit = 1000, script_file = ''init.py''\<rparr>
       \<lparr>cwd = [(''pyproject.toml'', File ''[project]''),
               (''src'', Dir [(''project_name'', Dir [])]),
               (''LICENSE'', File ''<year> <name>'')],
        console = \<lparr>stdin = [Line ''Ada'', Line ''a@x.com'', Line ''acme'', Line ''demo'', Line [],
                              Line ''y'', Line ''n'', Line ''n'', Line ''n'', Line ''n''],
                     stdout = []\<rparr>,
        written = []\<rparr>))) ''pyproject.toml''
   = Some (File (''dynamic = '' @ ''acme'' @ ''.__version__''))"
  by (simp add: descriptor_run(1))

theorem descriptor_written_before_dynamic_assignment_witness:
  "map_of (drop (length (written 
       \<lparr>cwd = [(''pyproject.toml'', File ''[project]''),
               (''src'', Dir [(''project_name'', Dir [])]),
               (''LICENSE'', File ''<year> <name>'')],
        console = \<lparr>stdin = [Line ''Ada'', Line ''a@x.com'', Line ''acme'', Line ''demo'', Line [],
                              Line ''y'', Line ''n'', Line ''n'', Line ''n'', Line ''n''],
                     stdout = []\<rparr>,
        written = []\<rparr>))
       (written (snd (main
       \<lparr>toml_load = (\<lambda>text. Inr (Table
          [(''project'', Table [(''optional-dependencies'',
              Table [(''dev'', Arr []), (''doc'', Arr []), (''test'', Arr [])])]),
           (''tool'', Table [(''setuptools'', Table [(''dynamic'', Str ''project_name.__version__'')])])])),
        toml_dumps = (\<lambda>d. case getitem d [''tool'', ''setuptools'', ''dynamic''] of
                            Inr (Str v) \<Rightarrow> ''dynamic = '' @ v | _ \<Rightarrow> []),
        os_rename = (\<lambda>src dst entries. Inr entries),
        year = 2024, recursion_limit = 1000, script_file = ''init.py''\<rparr>
       \<lparr>cwd = [(''pyproject.toml'', File ''[project]''),
               (''src'', Dir [(''project_name'', Dir [])]),
               (''LICENSE'', File ''<year> <name>'')],
        console = \<lparr>stdin = [Line ''Ada'', Line ''a@x.com'', Line ''acme'', Line ''demo'', Line [],
                              Line ''y'', Line ''n'', Line ''n'', Line ''n'', Line ''n''],
                     stdout = []\<rparr>,
        written = []\<rparr>)))) ''pyproject.toml''
     = Some ''dynamic = project_name.__version__''
   \<and> (\<exists>template data data1 name project_name c.
         map_of (cwd 
       \<lparr>cwd = [(''pyproject.toml'', File ''[project]''),
               (''src'', Dir [(''project_name'', Dir [])]),
               (''LICENSE'', File ''<year> <name>'')],
        console = \<lparr>stdin = [Line ''Ada'', Line ''a@x.com'', Line ''acme'', Line ''demo'', Line [],
                              Line ''y'', Line ''n'', Line ''n'', Line ''n'', Line ''n''],
                     stdout = []\<rparr>,
        written = []\<rparr>) ''pyproject.toml'' = Some (File template)
       \<and> toml_load (\<lparr>toml_load = (\<lambda>text. Inr (Table
          [(''project'', Table [(''optional-dependencies'',
              Table [(''dev'', Arr []), (''doc'', Arr []), (''test'', Arr [])])]),
           (''tool'', Table [(''setuptools'', Table [(''dynamic'', Str ''project_name.__version__'')])])])),
        toml_dumps = (\<lambda>d. case getitem d [''tool'', ''setuptools'', ''dynamic''] of
                            Inr (Str v) \<Rightarrow> ''dynamic = '' @ v | _ \<Rightarrow> []),
        os_rename = (\<lambda>src dst entries. Inr entries),
        year = 2024, recursion_limit = 1000, script_file = ''init.py''\<rparr>) template = Inr data
       \<and> main_collect data (console 
       \<lparr>cwd = [(''pyproject.toml'', File ''[project]''),
               (''src'', Dir [(''project_name'', Dir [])]),
               (''LICENSE'', File ''<year> <name>'')],
        console = \<lparr>stdin = [Line ''Ada'', Line ''a@x.com'', Line ''acme'', Line ''demo'', Line [],
                              Line ''y'', Line ''n'', Line ''n'', Line ''n'', Line ''n''],
                     stdout = []\<rparr>,
        written = []\<rparr>) = (Inr (data1, name, project_name), c)
       \<and> ''dynamic = project_name.__version__'' = toml_dumps (\<lparr>toml_load = (\<lambda>text. Inr (Table
          [(''project'', Table [(''optional-dependencies'',
              Table [(''dev'', Arr []), (''doc'', Arr []), (''test'', Arr [])])]),
           (''tool'', Table [(''setuptools'', Table [(''dynamic'', Str ''project_name.__version__'')])])])),
        toml_dumps = (\<lambda>d. case getitem d [''tool'', ''setuptools'', ''dynamic''] of
                            Inr (Str v) \<Rightarrow> ''dynamic = '' @ v | _ \<Rightarrow> []),
        os_rename = (\<lambda>src dst entries. Inr entries),
        year = 2024, recursion_limit = 1000, script_file = ''init.py''\<rparr>) data1
       \<and> getitem data1 [''tool'', ''setuptools'', ''dynamic'']
           = getitem data [''tool'', ''setuptools'', ''dynamic''])"
proof -
  from descriptor_run(2) obtain more where "written (snd (main
       \<lparr>toml_load = (\<lambda>text. Inr (Table
          [(''project'', Table [(''optional-dependencies'',
              Table [(''dev'', Arr []), (''doc'', Arr []), (''test'', Arr [])])]),
           (''tool'', Table [(''setuptools'', Table [(''dynamic'', Str ''project_name.__version__'')])])])),
        toml_dumps = (\<lambda>d. case getitem d [''tool'', ''setuptools'', ''dynamic''] of
                            Inr (Str v) \<Rightarrow> ''dynamic = '' @ v | _ \<Rightarrow> []),
        os_rename = (\<lambda>src dst entries. Inr entries),
        year = 2024, recursion_limit = 1000, script_file = ''init.py''\<rparr>
       \<lparr>cwd = [(''pyproject.toml'', File ''[project]''),
               (''src'', Dir [(''project_name'', Dir [])]),
               (''LICENSE'', File ''<year> <name>'')],
        console = \<lparr>stdin = [Line ''Ada'', Line ''a@x.com'', Line ''acme'', Line ''demo'', Line [],
                              Line ''y'', Line ''n'', Line ''n'', Line ''n'', Line ''n''],
                     stdout = []\<rparr>,
        written = []\<rparr>))
      = [(''LICENSE'', ''2024 Ada''), (''pyproject.toml'', ''dynamic = project_name.__version__'')] @ more"
    by blast
  then have first: "map_of (drop (length (written 
       \<lparr>cwd = [(''pyproject.toml'', File ''[project]''),
               (''src'', Dir [(''project_name'', Dir [])]),
               (''LICENSE'', File ''<year> <name>'')],
        console = \<lparr>stdin = [Line ''Ada'', Line ''a@x.com'', Line ''acme'', Line ''demo'', Line [],
                              Line ''y'', Line ''n'', Line ''n'', Line ''n'', Line ''n''],
                     stdout = []\<rparr>,
        written = []\<rparr>))
       (written (snd (main
       \<lparr>toml_load = (\<lambda>text. Inr (Table
          [(''project'', Table [(''optional-dependencies'',
              Table [(''dev'', Arr []), (''doc'', Arr []), (''test'', Arr [])])]),
           (''tool'', Table [(''setuptools'', Table [(''dynamic'', Str ''project_name.__version__'')])])])),
        toml_dumps = (\<lambda>d. case getitem d [''tool'', ''setuptools'', ''dynamic''] of
                            Inr (Str v) \<Rightarrow> ''dynamic = '' @ v | _ \<Rightarrow> []),
        os_rename = (\<lambda>src dst entries. Inr entries),
        year = 2024, recursion_limit = 1000, script_file = ''init.py''\<rparr>
       \<lparr>cwd = [(''pyproject.toml'', File ''[project]''),
               (''src'', Dir [(''project_name'', Dir [])]),
               (''LICENSE'', File ''<year> <name>'')],
        console = \<lparr>stdin = [Line ''Ada'', Line ''a@x.com'', Line ''acme'', Line ''demo'', Line [],
                              Line ''y'', Line ''n'', Line ''n'', Line ''n'', Line ''n''],
                     stdout = []\<rparr>,
        written = []\<rparr>)))) ''pyproject.toml''
     = Some ''dynamic = project_name.__version__''"
    by simp
  from descriptor_written_before_dynamic_assignment [OF first] first show ?thesis
    by (intro conjI)
qed

end
